theory Spec2Isabelle
  imports Main
begin

section \<open>PartField web front end: job lifecycle of \<^verbatim>\<open>gradio_app.py\<close>\<close>

text \<open>
  A shallow embedding of the job-orchestration code of \<^verbatim>\<open>src/gradio_app.py\<close>:
  \<^verbatim>\<open>cleanup_old_jobs\<close>, \<^verbatim>\<open>validate_file\<close>, \<^verbatim>\<open>run_command\<close>, \<^verbatim>\<open>process_3d_file\<close> and the
  \<^verbatim>\<open>on_process\<close> handler. Python strings are \<open>string\<close> (ASCII), Python's unbounded integers
  are \<open>int\<close>, the file system and the order of the side effects are an explicit \<open>world\<close>
  that every operation takes and returns, and an exception that leaves a function is the
  \<open>Inl\<close> branch of its result.
\<close>

subsection \<open>Python strings\<close>

text \<open>A character of a string is a code point below 256. \<^verbatim>\<open>str.lower\<close> maps the 26 capital
  letters and the 30 capital letters of Latin-1 (\<open>0xC0\<close> to \<open>0xDE\<close> without the
  multiplication sign \<open>0xD7\<close>), each to the code point 32 above it; every other character is
  kept.\<close>

definition capitals :: "char list" where
  "capitals =
     ''ABCDEFGHIJKLMNOPQRSTUVWXYZ''
     @ [CHR 0xC0, CHR 0xC1, CHR 0xC2, CHR 0xC3, CHR 0xC4, CHR 0xC5, CHR 0xC6, CHR 0xC7,
        CHR 0xC8, CHR 0xC9, CHR 0xCA, CHR 0xCB, CHR 0xCC, CHR 0xCD, CHR 0xCE, CHR 0xCF,
        CHR 0xD0, CHR 0xD1, CHR 0xD2, CHR 0xD3, CHR 0xD4, CHR 0xD5, CHR 0xD6,
        CHR 0xD8, CHR 0xD9, CHR 0xDA, CHR 0xDB, CHR 0xDC, CHR 0xDD, CHR 0xDE]"

definition smalls :: "char list" where
  "smalls =
     ''abcdefghijklmnopqrstuvwxyz''
     @ [CHR 0xE0, CHR 0xE1, CHR 0xE2, CHR 0xE3, CHR 0xE4, CHR 0xE5, CHR 0xE6, CHR 0xE7,
        CHR 0xE8, CHR 0xE9, CHR 0xEA, CHR 0xEB, CHR 0xEC, CHR 0xED, CHR 0xEE, CHR 0xEF,
        CHR 0xF0, CHR 0xF1, CHR 0xF2, CHR 0xF3, CHR 0xF4, CHR 0xF5, CHR 0xF6,
        CHR 0xF8, CHR 0xF9, CHR 0xFA, CHR 0xFB, CHR 0xFC, CHR 0xFD, CHR 0xFE]"

definition lower_char :: "char \<Rightarrow> char" where
  "lower_char c = (case map_of (zip capitals smalls) c of Some d \<Rightarrow> d | None \<Rightarrow> c)"

definition lower :: "string \<Rightarrow> string" where
  "lower s = map lower_char s"

text \<open>\<^verbatim>\<open>s.split(sep)\<close> for a one-character separator: it always returns at least one
  piece, and empty pieces are kept.\<close>

fun split_on :: "char \<Rightarrow> string \<Rightarrow> string list" where
  "split_on sep [] = [ []]"
| "split_on sep (c # cs) =
     (if c = sep then [] # split_on sep cs
      else (case split_on sep cs of [] \<Rightarrow> [ [c]] | x # xs \<Rightarrow> (c # x) # xs))"

text \<open>\<^verbatim>\<open>sep.join(xs)\<close>.\<close>

fun join :: "string \<Rightarrow> string list \<Rightarrow> string" where
  "join sep [] = []"
| "join sep [x] = x"
| "join sep (x # y # ys) = x @ sep @ join sep (y # ys)"

text \<open>\<^verbatim>\<open>s.rfind(c)\<close>: the index of the last occurrence, \<open>None\<close> for Python's \<open>-1\<close>.\<close>

fun rfind :: "char \<Rightarrow> string \<Rightarrow> nat option" where
  "rfind c [] = None"
| "rfind c (x # xs) =
     (case rfind c xs of Some i \<Rightarrow> Some (Suc i) | None \<Rightarrow> if x = c then Some 0 else None)"

text \<open>\<^verbatim>\<open>s.startswith(p)\<close>, \<^verbatim>\<open>s.endswith(p)\<close> and the substring test \<^verbatim>\<open>p in s\<close>.\<close>

fun startswith :: "string \<Rightarrow> string \<Rightarrow> bool" where
  "startswith s [] = True"
| "startswith [] (p # ps) = False"
| "startswith (c # cs) (p # ps) = (c = p \<and> startswith cs ps)"

definition endswith :: "string \<Rightarrow> string \<Rightarrow> bool" where
  "endswith s p = startswith (rev s) (rev p)"

fun contains :: "string \<Rightarrow> string \<Rightarrow> bool" where
  "contains [] p = (p = [])"
| "contains (c # cs) p = (startswith (c # cs) p \<or> contains cs p)"

text \<open>The slice \<^verbatim>\<open>s[-n:]\<close> for \<open>n > 0\<close>: the last \<open>n\<close> elements, all of \<open>s\<close> when it is
  shorter.\<close>

definition lastn :: "nat \<Rightarrow> 'a list \<Rightarrow> 'a list" where
  "lastn n s = drop (length s - n) s"

text \<open>\<^verbatim>\<open>str(n)\<close> for an integer.\<close>

fun str_nat :: "nat \<Rightarrow> string" where
  "str_nat n =
     (if n < 10 then [''0123456789'' ! n]
      else str_nat (n div 10) @ [''0123456789'' ! (n mod 10)])"

declare str_nat.simps [simp del]

definition str_int :: "int \<Rightarrow> string" where
  "str_int i = (if i < 0 then CHR ''-'' # str_nat (nat (- i)) else str_nat (nat i))"

definition str_bool :: "bool \<Rightarrow> string" where
  "str_bool b = (if b then ''True'' else ''False'')"

text \<open>\<^verbatim>\<open>int(s)\<close>: surrounding white space is stripped, one sign is allowed, then at least one
  decimal digit; anything else raises \<^verbatim>\<open>ValueError\<close>, which is \<open>None\<close> here. The white space
  of \<^verbatim>\<open>int\<close> is the space, the five characters from tab to carriage return, and among the
  code points above 127 the next-line character \<open>0x85\<close> and the no-break space \<open>0xA0\<close>; the
  separators \<open>0x1C\<close> to \<open>0x1F\<close>, which \<^verbatim>\<open>str.strip\<close> would remove, are not accepted, and no
  code point below 256 other than \<open>0\<close> to \<open>9\<close> is a decimal digit. (Python also accepts
  single underscores between digits; a piece returned by \<^verbatim>\<open>split('_')\<close> holds none.)\<close>

definition is_space :: "char \<Rightarrow> bool" where
  "is_space c =
     (c \<in> set [CHR '' '', CHR 0x09, CHR 0x0A, CHR 0x0B, CHR 0x0C, CHR 0x0D, CHR 0x85, CHR 0xA0])"

definition strip :: "string \<Rightarrow> string" where
  "strip s = rev (dropWhile is_space (rev (dropWhile is_space s)))"

definition digit_val :: "char \<Rightarrow> nat option" where
  "digit_val c = map_of (zip ''0123456789'' [0, 1, 2, 3, 4, 5, 6, 7, 8, 9]) c"

fun digits_val :: "nat \<Rightarrow> string \<Rightarrow> nat option" where
  "digits_val acc [] = Some acc"
| "digits_val acc (c # cs) =
     (case digit_val c of None \<Rightarrow> None | Some d \<Rightarrow> digits_val (10 * acc + d) cs)"

definition py_int :: "string \<Rightarrow> int option" where
  "py_int s =
     (case strip s of
        [] \<Rightarrow> None
      | c # cs \<Rightarrow>
          if c = CHR ''-'' then
            (if cs = [] then None else map_option (\<lambda>n. - int n) (digits_val 0 cs))
          else if c = CHR ''+'' then
            (if cs = [] then None else map_option int (digits_val 0 cs))
          else map_option int (digits_val 0 (c # cs)))"

subsection \<open>Paths\<close>

text \<open>
  A \<^verbatim>\<open>pathlib.Path\<close> on POSIX is its tuple of \<^verbatim>\<open>parts\<close>: the root \<open>''/''\<close> first when the
  path is absolute, then the components. Parsing drops empty and \<open>''.''\<close> components.
  (The implementation-defined root \<open>''//''\<close> of a path that starts with exactly two slashes
  is folded into \<open>''/''\<close>.)
\<close>

type_synonym path = "string list"

definition path_comps :: "string \<Rightarrow> string list" where
  "path_comps s = filter (\<lambda>c. c \<noteq> [] \<and> c \<noteq> ''.'') (split_on CHR ''/'' s)"

definition Path :: "string \<Rightarrow> path" where
  "Path s = (if startswith s ''/'' then ''/'' # path_comps s else path_comps s)"

text \<open>\<^verbatim>\<open>str(path)\<close>.\<close>

definition str_path :: "path \<Rightarrow> string" where
  "str_path p =
     (case p of
        [] \<Rightarrow> ''.''
      | r # cs \<Rightarrow> if r = ''/'' then ''/'' @ join ''/'' cs else join ''/'' (r # cs))"

text \<open>\<^verbatim>\<open>path / s\<close>: an absolute right operand replaces the left one.\<close>

definition pjoin :: "path \<Rightarrow> string \<Rightarrow> path" where
  "pjoin p s = (if startswith s ''/'' then Path s else p @ path_comps s)"

text \<open>\<^verbatim>\<open>path.name\<close>, \<^verbatim>\<open>path.suffix\<close> and \<^verbatim>\<open>path.stem\<close>: the suffix starts at the last dot of
  the name, unless that dot is the first or the last character of the name.\<close>

definition path_name :: "path \<Rightarrow> string" where
  "path_name p = (if p = [] \<or> p = [''/''] then [] else last p)"

definition path_suffix :: "path \<Rightarrow> string" where
  "path_suffix p =
     (let name = path_name p in
      case rfind CHR ''.'' name of
        None \<Rightarrow> []
      | Some i \<Rightarrow> if 0 < i \<and> i < length name - 1 then drop i name else [])"

definition path_stem :: "path \<Rightarrow> string" where
  "path_stem p =
     (let name = path_name p in
      case rfind CHR ''.'' name of
        None \<Rightarrow> name
      | Some i \<Rightarrow> if 0 < i \<and> i < length name - 1 then take i name else name)"

subsection \<open>Exceptions, the file system and the world\<close>

text \<open>An exception: its class name and its message. Every class that occurs is a subclass
  of \<^verbatim>\<open>Exception\<close>; \<open>str_exn\<close> is \<^verbatim>\<open>str(e)\<close>.\<close>

datatype py_exn = Exception string string

fun str_exn :: "py_exn \<Rightarrow> string" where
  "str_exn (Exception cls msg) = msg"

text \<open>
  What \<^verbatim>\<open>stat\<close> reports about a path: directory or not, size in bytes and the time of last
  modification. Times are integers, in microseconds (the resolution of \<^verbatim>\<open>datetime\<close>). The
  file system lists its entries in directory order; a path is looked up from the front.
\<close>

datatype node = Node (n_is_dir: bool) (n_size: nat) (n_mtime: int)

type_synonym fs = "(path \<times> node) list"

definition path_exists :: "fs \<Rightarrow> path \<Rightarrow> bool" where
  "path_exists f p = (map_of f p \<noteq> None)"

definition path_is_dir :: "fs \<Rightarrow> path \<Rightarrow> bool" where
  "path_is_dir f p = (case map_of f p of Some n \<Rightarrow> n_is_dir n | None \<Rightarrow> False)"

text \<open>\<^verbatim>\<open>path.iterdir()\<close>: the immediate children, each once, in directory order. The name of
  a directory entry is not empty, is neither \<open>.\<close> nor \<open>..\<close> and holds no slash, so the root is
  the child of no path.\<close>

definition is_entry_name :: "string \<Rightarrow> bool" where
  "is_entry_name nm = (nm \<noteq> [] \<and> nm \<noteq> ''.'' \<and> nm \<noteq> ''..'' \<and> CHR ''/'' \<notin> set nm)"

definition iterdir :: "fs \<Rightarrow> path \<Rightarrow> path list" where
  "iterdir f d =
     remdups (filter (\<lambda>p. p \<noteq> [] \<and> butlast p = d \<and> is_entry_name (last p)) (map fst f))"

text \<open>The entries that remain after the subtree at \<open>d\<close> is removed, and the entries after
  \<open>p\<close> is written.\<close>

definition path_under :: "path \<Rightarrow> path \<Rightarrow> bool" where
  "path_under d p = (take (length d) p = d)"

definition remove_tree :: "path \<Rightarrow> fs \<Rightarrow> fs" where
  "remove_tree d f = filter (\<lambda>(p, n). \<not> path_under d p) f"

definition fs_put :: "path \<Rightarrow> node \<Rightarrow> fs \<Rightarrow> fs" where
  "fs_put p n f =
     (if path_exists f p then map (\<lambda>(q, m). if q = p then (q, n) else (q, m)) f
      else f @ [(p, n)])"

text \<open>
  The operations on the file system that the job set-up and the sweep perform can fail for
  a reason outside the model (permissions, a full disk, a concurrent removal): the
  environment decides with \<open>fault\<close>. \<open>Is_dir\<close> is the test \<^verbatim>\<open>job_dir.is_dir()\<close> of the sweep,
  which returns \<open>False\<close> for a missing path and raises the other errors of the underlying
  \<^verbatim>\<open>stat\<close>. The side effects that matter for the order of a job are recorded in the
  \<open>trace\<close>, oldest first.
\<close>

datatype fs_op = Mkdir path | Copy2 string path | Is_dir path | Stat path | Rmtree path

datatype event =
    Ev_mkdir path
  | Ev_copy2 string path
  | Ev_cleanup path
  | Ev_rmtree path
  | Ev_clear_gpu
  | Ev_popen "string list" path

text \<open>
  A subprocess: either \<^verbatim>\<open>Popen\<close> raises, or the process runs. Then \<^verbatim>\<open>readline\<close> returns the
  lines of \<open>stdout_lines\<close> in turn, after them it raises \<open>read_error\<close> if there is one and
  returns the empty string (end of file) otherwise; \<open>returncode\<close> is the exit status,
  \<open>effect\<close> is what the process does to the file system and \<open>elapsed\<close> how long it runs.
\<close>

datatype proc =
    Popen_raises py_exn
  | Process (stdout_lines: "string list") (read_error: "py_exn option") (returncode: int)
      (effect: "fs \<Rightarrow> fs") (elapsed: int)

record world =
  fs :: fs
  clock :: int
  spawned :: nat
  trace :: "event list"

text \<open>
  The environment of one run: the random job identifier, the interpreter path, the directory
  of the script, the local-time formatting of \<^verbatim>\<open>strftime("%H:%M:%S")\<close>, the faults, what a
  failing removal of a tree leaves in place (\<open>survives env d q\<close>: the entry \<open>q\<close> below \<open>d\<close> is
  still there when \<^verbatim>\<open>rmtree\<close> of \<open>d\<close> raises), and the behaviour of the \<open>n\<close>-th subprocess that
  is started.
\<close>

record env =
  uuid4 :: string
  sys_executable :: string
  script_dir :: path
  strftime_HMS :: "int \<Rightarrow> string"
  fault :: "fs_op \<Rightarrow> py_exn option"
  survives :: "path \<Rightarrow> path \<Rightarrow> bool"
  popen :: "nat \<Rightarrow> proc"

definition emit :: "event \<Rightarrow> world \<Rightarrow> world" where
  "emit e w = w\<lparr>trace := trace w @ [e]\<rparr>"

text \<open>\<^verbatim>\<open>path.mkdir(parents=True, exist_ok=True)\<close>: every missing directory on the way is
  created; it raises when a parent on the way, or the path itself, exists and is not a
  directory.\<close>

definition prefixes_of :: "path \<Rightarrow> path list" where
  "prefixes_of p = map (\<lambda>n. take n p) [1..<Suc (length p)]"

definition add_dir :: "int \<Rightarrow> fs \<Rightarrow> path \<Rightarrow> fs" where
  "add_dir t f q = (if path_exists f q then f else f @ [(q, Node True 0 t)])"

definition mkdir :: "env \<Rightarrow> path \<Rightarrow> world \<Rightarrow> (py_exn + unit) \<times> world" where
  "mkdir env p w =
     (let w1 = emit (Ev_mkdir p) w in
      case fault env (Mkdir p) of
        Some e \<Rightarrow> (Inl e, w1)
      | None \<Rightarrow>
          if list_ex (\<lambda>q. path_exists (fs w1) q \<and> \<not> path_is_dir (fs w1) q)
               (butlast (prefixes_of p))
          then (Inl (Exception ''NotADirectoryError'' (str_path p)), w1)
          else if path_exists (fs w1) p \<and> \<not> path_is_dir (fs w1) p
          then (Inl (Exception ''FileExistsError'' (str_path p)), w1)
          else (Inr (), w1\<lparr>fs := foldl (add_dir (clock w1)) (fs w1) (prefixes_of p)\<rparr>))"

text \<open>\<^verbatim>\<open>shutil.copy2(src, dst)\<close>: the file and its metadata are copied; a destination that is
  a directory receives the file under the source's name.\<close>

definition copy2 :: "env \<Rightarrow> string \<Rightarrow> path \<Rightarrow> world \<Rightarrow> (py_exn + unit) \<times> world" where
  "copy2 env src dst w =
     (let w1 = emit (Ev_copy2 src dst) w in
      case fault env (Copy2 src dst) of
        Some e \<Rightarrow> (Inl e, w1)
      | None \<Rightarrow>
          (case map_of (fs w1) (Path src) of
             None \<Rightarrow> (Inl (Exception ''FileNotFoundError'' src), w1)
           | Some n \<Rightarrow>
               if n_is_dir n then (Inl (Exception ''IsADirectoryError'' src), w1)
               else
                 let target = (if path_is_dir (fs w1) dst
                               then pjoin dst (path_name (Path src)) else dst)
                 in if path_is_dir (fs w1) target
                    then (Inl (Exception ''IsADirectoryError'' (str_path target)), w1)
                    else (Inr (),
                          w1\<lparr>fs := fs_put target (Node False (n_size n) (n_mtime n)) (fs w1)\<rparr>)))"

text \<open>
  \<^verbatim>\<open>shutil.rmtree(path)\<close>: it raises on a missing path and on a path that is not a
  directory, and changes nothing then. On a directory it removes the tree from the leaves
  up; when the removal fails on the way it raises, the directory itself is still there and
  so are the entries below it that were not reached.
\<close>

definition partly_removed :: "env \<Rightarrow> path \<Rightarrow> fs \<Rightarrow> fs" where
  "partly_removed env d f =
     filter (\<lambda>(q, n). \<not> path_under d q \<or> q = d \<or> survives env d q) f"

definition rmtree :: "env \<Rightarrow> path \<Rightarrow> world \<Rightarrow> (py_exn + unit) \<times> world" where
  "rmtree env p w =
     (let w1 = emit (Ev_rmtree p) w in
      if \<not> path_exists (fs w1) p then (Inl (Exception ''FileNotFoundError'' (str_path p)), w1)
      else if \<not> path_is_dir (fs w1) p
      then (Inl (Exception ''NotADirectoryError'' (str_path p)), w1)
      else
        (case fault env (Rmtree p) of
           Some e \<Rightarrow> (Inl e, w1\<lparr>fs := partly_removed env p (fs w1)\<rparr>)
         | None \<Rightarrow> (Inr (), w1\<lparr>fs := remove_tree p (fs w1)\<rparr>)))"

text \<open>\<^verbatim>\<open>path.is_dir()\<close> and \<^verbatim>\<open>path.stat()\<close> as the sweep calls them.\<close>

definition is_dir :: "env \<Rightarrow> fs \<Rightarrow> path \<Rightarrow> py_exn + bool" where
  "is_dir env f p =
     (case fault env (Is_dir p) of
        Some e \<Rightarrow> Inl e
      | None \<Rightarrow> Inr (path_is_dir f p))"

definition stat :: "env \<Rightarrow> fs \<Rightarrow> path \<Rightarrow> py_exn + node" where
  "stat env f p =
     (case fault env (Stat p) of
        Some e \<Rightarrow> Inl e
      | None \<Rightarrow>
          (case map_of f p of
             None \<Rightarrow> Inl (Exception ''FileNotFoundError'' (str_path p))
           | Some n \<Rightarrow> Inr n))"

subsection \<open>Configuration\<close>

definition MODEL_CHECKPOINT :: string where
  "MODEL_CHECKPOINT = ''model/model_objaverse.ckpt''"

definition CONFIG_FILE :: string where
  "CONFIG_FILE = ''configs/final/demo.yaml''"

text \<open>The set literal of the source, in its written order (the order in which Python
  iterates a set of strings changes from one process to the next; it only shows in the
  wording of one message).\<close>

definition SUPPORTED_EXTENSIONS :: "string list" where
  "SUPPORTED_EXTENSIONS = [''.obj'', ''.glb'', ''.off'', ''.ply'']"

definition JOB_EXPIRY_HOURS :: int where
  "JOB_EXPIRY_HOURS = 24"

subsection \<open>Utility functions\<close>

definition get_partfield_dir :: "env \<Rightarrow> fs \<Rightarrow> path" where
  "get_partfield_dir env f =
     (if path_exists f (pjoin (script_dir env) ''partfield_inference.py'') then script_dir env
      else Path ''/workspace/partfield'')"

text \<open>
  Dates. A \<^verbatim>\<open>datetime\<close> is its number of microseconds since the epoch; it lies between the
  first instant of the year 1 and the last of the year 9999. \<^verbatim>\<open>timedelta(hours=h)\<close> raises
  \<^verbatim>\<open>OverflowError\<close> when it spans more than 999999999 days, the subtraction of a
  \<^verbatim>\<open>timedelta\<close> from a \<^verbatim>\<open>datetime\<close> raises it when the result leaves the range, and
  \<^verbatim>\<open>datetime.fromtimestamp\<close> raises on a time outside the range.
\<close>

definition DATETIME_MIN :: int where
  "DATETIME_MIN = - 62135596800000000"

definition DATETIME_MAX :: int where
  "DATETIME_MAX = 253402300799999999"

definition timedelta_hours :: "int \<Rightarrow> py_exn + int" where
  "timedelta_hours h =
     (if - 999999999 \<le> h div 24 \<and> h div 24 \<le> 999999999 then Inr (h * 3600000000)
      else Inl (Exception ''OverflowError'' ''days out of range''))"

definition datetime_sub :: "int \<Rightarrow> int \<Rightarrow> py_exn + int" where
  "datetime_sub t d =
     (if DATETIME_MIN \<le> t - d \<and> t - d \<le> DATETIME_MAX then Inr (t - d)
      else Inl (Exception ''OverflowError'' ''date value out of range''))"

definition fromtimestamp :: "int \<Rightarrow> py_exn + int" where
  "fromtimestamp t =
     (if DATETIME_MIN \<le> t \<and> t \<le> DATETIME_MAX then Inr t
      else Inl (Exception ''ValueError'' ''year out of range''))"

text \<open>The cutoff of line 47, \<^verbatim>\<open>datetime.now() - timedelta(hours=expiry_hours)\<close>.\<close>

definition cutoff_of :: "int \<Rightarrow> int \<Rightarrow> py_exn + int" where
  "cutoff_of now expiry_hours =
     (case timedelta_hours expiry_hours of
        Inl e \<Rightarrow> Inl e
      | Inr d \<Rightarrow> datetime_sub now d)"

text \<open>
  \<^verbatim>\<open>cleanup_old_jobs\<close>. \<^verbatim>\<open>datetime.now()\<close> is the clock of the world. In the loop the test
  \<^verbatim>\<open>job_dir.is_dir()\<close> stands before the \<^verbatim>\<open>try\<close>: when it raises, the exception leaves the
  function. The rest of the body is guarded by \<^verbatim>\<open>try\<close>/\<^verbatim>\<open>except Exception: pass\<close>: a failing
  \<^verbatim>\<open>stat\<close>, \<^verbatim>\<open>fromtimestamp\<close> or \<^verbatim>\<open>rmtree\<close> skips the directory. The cutoff and \<^verbatim>\<open>iterdir\<close> are
  not guarded either: the function raises on an expiry out of range and on a jobs root
  that is not a directory.
\<close>

fun cleanup_loop ::
  "env \<Rightarrow> int \<Rightarrow> path list \<Rightarrow> nat \<Rightarrow> world \<Rightarrow> (py_exn + nat) \<times> world" where
  "cleanup_loop env cutoff [] removed w = (Inr removed, w)"
| "cleanup_loop env cutoff (job_dir # rest) removed w =
     (case is_dir env (fs w) job_dir of
        Inl e \<Rightarrow> (Inl e, w)
      | Inr b \<Rightarrow>
          if b then
            (case stat env (fs w) job_dir of
               Inl e \<Rightarrow> cleanup_loop env cutoff rest removed w
             | Inr st \<Rightarrow>
                 (case fromtimestamp (n_mtime st) of
                    Inl e \<Rightarrow> cleanup_loop env cutoff rest removed w
                  | Inr mtime \<Rightarrow>
                      if mtime < cutoff then
                        (case rmtree env job_dir w of
                           (Inl e, w') \<Rightarrow> cleanup_loop env cutoff rest removed w'
                         | (Inr u, w') \<Rightarrow> cleanup_loop env cutoff rest (removed + 1) w')
                      else cleanup_loop env cutoff rest removed w))
          else cleanup_loop env cutoff rest removed w)"

definition cleanup_old_jobs :: "env \<Rightarrow> path \<Rightarrow> int \<Rightarrow> world \<Rightarrow> (py_exn + nat) \<times> world" where
  "cleanup_old_jobs env jobs_dir expiry_hours w =
     (let w0 = emit (Ev_cleanup jobs_dir) w in
      if \<not> path_exists (fs w0) jobs_dir then (Inr 0, w0)
      else
        (case cutoff_of (clock w0) expiry_hours of
           Inl e \<Rightarrow> (Inl e, w0)
         | Inr cutoff \<Rightarrow>
             if \<not> path_is_dir (fs w0) jobs_dir
             then (Inl (Exception ''NotADirectoryError'' (str_path jobs_dir)), w0)
             else cleanup_loop env cutoff (iterdir (fs w0) jobs_dir) 0 w0))"

text \<open>\<^verbatim>\<open>clear_gpu_memory\<close>: every failure is swallowed; only the call is recorded.\<close>

definition clear_gpu_memory :: "world \<Rightarrow> world" where
  "clear_gpu_memory w = emit Ev_clear_gpu w"

text \<open>
  \<^verbatim>\<open>validate_file\<close>. \<^verbatim>\<open>not file_path\<close> holds for the empty string (and for \<^verbatim>\<open>None\<close>, which
  is the empty string here). The size test \<^verbatim>\<open>size / (1024 * 1024) > 100\<close> is a test on the
  integer size, and \<^verbatim>\<open>{size_mb:.1f}\<close> rounds the exact quotient to tenths, ties to even.
\<close>

definition fmt_size_mb :: "nat \<Rightarrow> string" where
  "fmt_size_mb nbytes =
     (let q = (nbytes * 10) div 1048576;
          r = (nbytes * 10) mod 1048576;
          t = (if r > 524288 \<or> (r = 524288 \<and> odd q) then q + 1 else q)
      in str_nat (t div 10) @ ''.'' @ str_nat (t mod 10))"

definition validate_file :: "fs \<Rightarrow> string \<Rightarrow> bool \<times> string" where
  "validate_file f file_path =
     (if file_path = [] then (False, ''No file uploaded'')
      else
        let path = Path file_path in
        if \<not> path_exists f path then (False, ''File does not exist'')
        else
          let ext = lower (path_suffix path) in
          if ext \<notin> set SUPPORTED_EXTENSIONS
          then (False, ''Unsupported format: '' @ ext @ ''. Supported: ''
                         @ join '', '' SUPPORTED_EXTENSIONS)
          else
            let nbytes = (case map_of f path of Some n \<Rightarrow> n_size n | None \<Rightarrow> 0) in
            if nbytes > 100 * 1024 * 1024
            then (False, ''File too large: '' @ fmt_size_mb nbytes @ ''MB (max 100MB)'')
            else
              let stem = lower (path_stem path) in
              if stem \<in> set [''car'', ''complex_car'']
              then (False, ''The filename '' @ [CHR 0x27] @ path_name path @ [CHR 0x27]
                             @ '' is reserved and will be skipped by the model. ''
                             @ ''Please rename your file.'')
              else (True, ''File valid''))"

text \<open>
  \<^verbatim>\<open>run_command\<close>. The reading loop \<^verbatim>\<open>for line in iter(process.stdout.readline, '')\<close> stops at
  the first empty string; after each line the callback, if there is one, receives the
  output so far, and it may raise. \<open>run_command_try\<close> is the body of the \<^verbatim>\<open>try\<close> block and
  \<open>run_command\<close> adds the handler \<^verbatim>\<open>except Exception as e\<close>.
\<close>

type_synonym callback = "string \<Rightarrow> py_exn + string"

fun read_output ::
  "callback option \<Rightarrow> string list \<Rightarrow> py_exn option \<Rightarrow> string list \<Rightarrow> py_exn + string list" where
  "read_output log_callback [] err output_lines =
     (case err of Some e \<Rightarrow> Inl e | None \<Rightarrow> Inr output_lines)"
| "read_output log_callback (line # rest) err output_lines =
     (if line = [] then Inr output_lines
      else
        (case log_callback of
           None \<Rightarrow> read_output log_callback rest err (output_lines @ [line])
         | Some f \<Rightarrow>
             (case f (concat (output_lines @ [line])) of
                Inl e \<Rightarrow> Inl e
              | Inr u \<Rightarrow> read_output log_callback rest err (output_lines @ [line]))))"

definition run_command_try ::
  "env \<Rightarrow> string list \<Rightarrow> path \<Rightarrow> callback option \<Rightarrow> world
     \<Rightarrow> (py_exn + bool \<times> string) \<times> world" where
  "run_command_try env cmd cwd log_callback w =
     (let w1 = (emit (Ev_popen cmd cwd) w)\<lparr>spawned := Suc (spawned w)\<rparr> in
      case popen env (spawned w) of
        Popen_raises e \<Rightarrow> (Inl e, w1)
      | Process lines err rc eff dt \<Rightarrow>
          let w2 = w1\<lparr>fs := eff (fs w1), clock := clock w1 + dt\<rparr> in
          (case read_output log_callback lines err [] of
             Inl e \<Rightarrow> (Inl e, w2)
           | Inr output_lines \<Rightarrow> (Inr (rc = 0, concat output_lines), w2)))"

definition run_command ::
  "env \<Rightarrow> string list \<Rightarrow> path \<Rightarrow> callback option \<Rightarrow> world
     \<Rightarrow> (py_exn + bool \<times> string) \<times> world" where
  "run_command env cmd cwd log_callback w =
     (case run_command_try env cmd cwd log_callback w of
        (Inl e, w') \<Rightarrow> (Inr (False, ''Command failed: '' @ str_exn e), w')
      | (Inr r, w') \<Rightarrow> (Inr r, w'))"

subsection \<open>Processing pipeline\<close>

text \<open>
  \<^verbatim>\<open>process_3d_file\<close> returns \<^verbatim>\<open>(status_message, list_of_ply_paths, pca_visualization_path,
  log_output)\<close>. Its local function \<^verbatim>\<open>log\<close> appends a time-stamped line to \<^verbatim>\<open>log_output\<close> and
  returns the lines joined by newlines: here \<open>log\<close> returns the new list and the caller joins
  it. The calls of the progress tracker have no effect on the result and are left out.
\<close>

type_synonym result = "string \<times> string list \<times> string option \<times> string"

definition nl :: string where
  "nl = [CHR 0x0A]"

definition log :: "env \<Rightarrow> world \<Rightarrow> string list \<Rightarrow> string \<Rightarrow> string list" where
  "log env w log_output msg =
     log_output @ [''['' @ strftime_HMS env (clock w) @ ''] '' @ msg]"

text \<open>The local function \<^verbatim>\<open>update_log\<close>, the callback of both stages; it never raises.\<close>

definition update_log :: "string list \<Rightarrow> string \<Rightarrow> string" where
  "update_log log_output output =
     join nl log_output @ nl @ ''--- Inference Output ---'' @ nl
       @ join nl (lastn 50 (split_on (CHR 0x0A) output))"

definition inference_cmd ::
  "env \<Rightarrow> string \<Rightarrow> path \<Rightarrow> bool \<Rightarrow> int \<Rightarrow> bool \<Rightarrow> string list" where
  "inference_cmd env result_name input_dir is_point_cloud points_per_face preprocess_mesh =
     [sys_executable env, ''partfield_inference.py'',
      ''-c'', CONFIG_FILE,
      ''--opts'',
      ''continue_ckpt'', MODEL_CHECKPOINT,
      ''result_name'', result_name,
      ''dataset.data_path'', str_path input_dir,
      ''is_pc'', str_bool is_point_cloud,
      ''n_point_per_face'', str_int points_per_face,
      ''dataset.val_num_workers'', ''2'',
      ''dataset.val_batch_size'', ''1'']
     @ (if preprocess_mesh \<and> \<not> is_point_cloud then [''preprocess_mesh'', ''True''] else [])"

definition clustering_cmd ::
  "env \<Rightarrow> path \<Rightarrow> path \<Rightarrow> path \<Rightarrow> int \<Rightarrow> bool \<Rightarrow> bool \<Rightarrow> int \<Rightarrow> bool \<Rightarrow> string list" where
  "clustering_cmd env actual_features_dir output_dir input_dir max_clusters is_point_cloud
       use_agglomerative adjacency_option add_knn_edges =
     [sys_executable env, ''run_part_clustering.py'',
      ''--root'', str_path actual_features_dir,
      ''--dump_dir'', str_path output_dir,
      ''--source_dir'', str_path input_dir,
      ''--max_num_clusters'', str_int max_clusters,
      ''--is_pc'', str_bool is_point_cloud,
      ''--export_mesh'', ''True'']
     @ (if \<not> is_point_cloud
        then [''--use_agglo'', str_bool use_agglomerative,
              ''--option'', str_int adjacency_option,
              ''--with_knn'', str_bool add_knn_edges]
        else [])"

text \<open>
  \<^verbatim>\<open>dir.glob("*" + suffix)\<close> and \<^verbatim>\<open>dir.glob("feat_pca_*.ply")\<close>: the children of a directory
  whose name matches, in directory order; nothing for a path that is not a directory.
\<close>

definition glob_suffix :: "fs \<Rightarrow> path \<Rightarrow> string \<Rightarrow> path list" where
  "glob_suffix f d suf =
     (if path_is_dir f d then filter (\<lambda>p. endswith (last p) suf) (iterdir f d) else [])"

definition glob_feat_pca :: "fs \<Rightarrow> path \<Rightarrow> path list" where
  "glob_feat_pca f d =
     (if path_is_dir f d
      then filter (\<lambda>p. startswith (last p) ''feat_pca_'' \<and> endswith (last p) ''.ply''
                        \<and> 13 \<le> length (last p)) (iterdir f d)
      else [])"

text \<open>The local function \<^verbatim>\<open>get_cluster_count\<close>: the bare \<^verbatim>\<open>except\<close> turns every failure of
  the parse into 0.\<close>

definition get_cluster_count :: "path \<Rightarrow> int" where
  "get_cluster_count p =
     (case split_on CHR ''_'' (path_stem p) of
        [] \<Rightarrow> 0
      | t # ts \<Rightarrow> (case py_int (last (t # ts)) of Some n \<Rightarrow> n | None \<Rightarrow> 0))"

text \<open>
  Lines 299 to 315: \<open>globbed\<close> is \<^verbatim>\<open>mesh_list\<close> before the sort and \<open>mesh_list\<close> after it
  (\<^verbatim>\<open>list.sort\<close> is a stable sort, as \<open>sort_key\<close> is); both are empty when the \<^verbatim>\<open>ply\<close> directory
  does not exist.
\<close>

definition globbed :: "fs \<Rightarrow> path \<Rightarrow> path list" where
  "globbed f output_dir =
     (let ply_dir = pjoin output_dir ''ply'' in
      if path_exists f ply_dir
      then glob_suffix f ply_dir ''.ply'' @ glob_suffix f ply_dir ''.obj''
      else [])"

definition mesh_list :: "fs \<Rightarrow> path \<Rightarrow> path list" where
  "mesh_list f output_dir = sort_key get_cluster_count (globbed f output_dir)"

text \<open>\<^verbatim>\<open>shutil.rmtree(path, ignore_errors=True)\<close>.\<close>

definition rmtree_ignore_errors :: "env \<Rightarrow> path \<Rightarrow> world \<Rightarrow> world" where
  "rmtree_ignore_errors env p w = snd (rmtree env p w)"

text \<open>Step 3, collect results (lines 295 to 343).\<close>

definition collect_results ::
  "env \<Rightarrow> string list \<Rightarrow> path \<Rightarrow> path \<Rightarrow> int \<Rightarrow> string option \<Rightarrow> world
     \<Rightarrow> (py_exn + result) \<times> world" where
  "collect_results env log_output output_dir actual_features_dir max_clusters pca_file w =
     (let mesh_files = map str_path (mesh_list (fs w) output_dir) in
      if mesh_files = [] then
        (Inr (''Warning: No output files generated'', [], pca_file,
              join nl (log env w log_output
                ''Processing completed but no mesh files were generated'')), w)
      else
        let w1 = clear_gpu_memory w;
            w2 = (if path_exists (fs w1) actual_features_dir
                  then rmtree_ignore_errors env actual_features_dir w1 else w1);
            has_obj = list_ex (\<lambda>f. endswith f ''.obj'') mesh_files;
            format_note = (if has_obj then '' (with UV maps)'' else []);
            log_output2 = log env w2 log_output
              (''Generated '' @ str_nat (length mesh_files) @ '' segmentation result(s)''
                 @ format_note)
        in (Inr (''Success! Generated '' @ str_nat (length mesh_files)
                   @ '' segmentation(s) with 2 to '' @ str_int max_clusters @ '' parts''
                   @ format_note,
                 mesh_files, pca_file, join nl log_output2), w2))"

text \<open>Step 2, clustering (lines 259 to 293), then step 3.\<close>

definition clustering ::
  "env \<Rightarrow> string list \<Rightarrow> path \<Rightarrow> path \<Rightarrow> path \<Rightarrow> path \<Rightarrow> bool \<Rightarrow> int \<Rightarrow> bool \<Rightarrow> int \<Rightarrow> bool
     \<Rightarrow> string option \<Rightarrow> world \<Rightarrow> (py_exn + result) \<times> world" where
  "clustering env log_output input_dir output_dir actual_features_dir partfield_dir
       is_point_cloud max_clusters use_agglomerative adjacency_option add_knn_edges pca_file w =
     (let log_output1 = log env w log_output ''Starting clustering...'';
          cmd = clustering_cmd env actual_features_dir output_dir input_dir max_clusters
                  is_point_cloud use_agglomerative adjacency_option add_knn_edges;
          log_output2 = log env w log_output1
            (''Running clustering with max '' @ str_int max_clusters @ '' clusters...'')
      in case run_command env cmd partfield_dir
                (Some (\<lambda>output. Inr (update_log log_output2 output))) w of
           (Inl e, w1) \<Rightarrow> (Inl e, w1)
         | (Inr (success, clustering_output), w1) \<Rightarrow>
             if \<not> success then
               (Inr (''Error: Clustering failed'', [], pca_file,
                     join nl (log env w1 log_output2
                       (''Clustering failed:'' @ nl @ lastn 1000 clustering_output))), w1)
             else
               collect_results env (log env w1 log_output2 ''Clustering completed'')
                 output_dir actual_features_dir max_clusters pca_file w1)"

text \<open>Step 1, feature extraction (lines 204 to 257), then step 2.\<close>

definition feature_extraction ::
  "env \<Rightarrow> string list \<Rightarrow> string \<Rightarrow> path \<Rightarrow> path \<Rightarrow> path \<Rightarrow> bool \<Rightarrow> int \<Rightarrow> bool \<Rightarrow> bool \<Rightarrow> int
     \<Rightarrow> bool \<Rightarrow> int \<Rightarrow> world \<Rightarrow> (py_exn + result) \<times> world" where
  "feature_extraction env log_output job_id input_dir output_dir partfield_dir
       is_point_cloud max_clusters use_agglomerative preprocess_mesh adjacency_option
       add_knn_edges points_per_face w =
     (let log_output1 = log env w log_output ''Starting feature extraction...'';
          result_name = ''job_'' @ job_id;
          actual_features_dir = pjoin (pjoin partfield_dir ''exp_results'') result_name;
          cmd = inference_cmd env result_name input_dir is_point_cloud points_per_face
                  preprocess_mesh;
          log_output2 = log env w log_output1
            (''Running: '' @ join '' '' (take 5 cmd) @ ''...'')
      in case run_command env cmd partfield_dir
                (Some (\<lambda>output. Inr (update_log log_output2 output))) w of
           (Inl e, w1) \<Rightarrow> (Inl e, w1)
         | (Inr (success, inference_output), w1) \<Rightarrow>
             if \<not> success then
               (if contains inference_output ''CUDA out of memory''
                   \<or> contains inference_output ''OutOfMemoryError''
                then
                  (Inr (''Error: GPU out of memory. Try reducing '' @ [CHR 0x27]
                          @ ''Points per face'' @ [CHR 0x27] @ '' in advanced options.'',
                        [], None,
                        join nl (log env w1 log_output2
                          (''Feature extraction failed: GPU out of memory'' @ nl
                             @ lastn 500 inference_output))), w1)
                else
                  (Inr (''Error: Feature extraction failed'', [], None,
                        join nl (log env w1 log_output2
                          (''Feature extraction failed:'' @ nl
                             @ lastn 1000 inference_output))), w1))
             else
               let log_output3 = log env w1 log_output2 ''Feature extraction completed'';
                   pca_file = (case glob_feat_pca (fs w1) actual_features_dir of
                                 [] \<Rightarrow> None
                               | f # fs' \<Rightarrow> Some (str_path f))
               in clustering env log_output3 input_dir output_dir actual_features_dir
                    partfield_dir is_point_cloud max_clusters use_agglomerative
                    adjacency_option add_knn_edges pca_file w1)"

text \<open>Setting up the job directory and copying the input file (lines 180 to 189); none of
  the three calls is guarded.\<close>

definition setup_job_directory ::
  "env \<Rightarrow> string list \<Rightarrow> string \<Rightarrow> string \<Rightarrow> path \<Rightarrow> path \<Rightarrow> world
     \<Rightarrow> (py_exn + string list) \<times> world" where
  "setup_job_directory env log_output file_path job_id input_dir output_dir w =
     (case mkdir env input_dir w of
        (Inl e, w1) \<Rightarrow> (Inl e, w1)
      | (Inr u, w1) \<Rightarrow>
          (case mkdir env output_dir w1 of
             (Inl e, w2) \<Rightarrow> (Inl e, w2)
           | (Inr u, w2) \<Rightarrow>
               let log_output1 = log env w2 log_output (''Created job directory: '' @ job_id);
                   input_path = Path file_path;
                   dest_path = pjoin input_dir (path_name input_path)
               in (case copy2 env file_path dest_path w2 of
                     (Inl e, w3) \<Rightarrow> (Inl e, w3)
                   | (Inr u, w3) \<Rightarrow>
                       (Inr (log env w3 log_output1
                               (''Copied input file: '' @ path_name input_path)), w3))))"

text \<open>\<^verbatim>\<open>process_3d_file\<close>: validation, the job directory, the sweep, the GPU cache, then the
  three steps.\<close>

definition process_3d_file ::
  "env \<Rightarrow> string \<Rightarrow> bool \<Rightarrow> int \<Rightarrow> bool \<Rightarrow> bool \<Rightarrow> int \<Rightarrow> bool \<Rightarrow> int \<Rightarrow> string \<Rightarrow> world
     \<Rightarrow> (py_exn + result) \<times> world" where
  "process_3d_file env file_path is_point_cloud max_clusters use_agglomerative preprocess_mesh
       adjacency_option add_knn_edges points_per_face jobs_dir w =
     (case validate_file (fs w) file_path of
        (is_valid, msg) \<Rightarrow>
          if \<not> is_valid then
            (Inr (''Error: '' @ msg, [], None,
                  join nl (log env w [] (''Validation failed: '' @ msg))), w)
          else
            let log_output = log env w [] ''File validated successfully'';
                job_id = take 8 (uuid4 env);
                jobs_path = Path jobs_dir;
                job_dir = pjoin jobs_path job_id;
                input_dir = pjoin job_dir ''input'';
                output_dir = pjoin job_dir ''output''
            in (case setup_job_directory env log_output file_path job_id input_dir output_dir w of
                  (Inl e, w1) \<Rightarrow> (Inl e, w1)
                | (Inr log_output1, w1) \<Rightarrow>
                    (case cleanup_old_jobs env jobs_path JOB_EXPIRY_HOURS w1 of
                       (Inl e, w2) \<Rightarrow> (Inl e, w2)
                     | (Inr removed, w2) \<Rightarrow>
                         let log_output2 =
                               (if removed > 0
                                then log env w2 log_output1
                                       (''Cleaned up '' @ str_nat removed @ '' old job(s)'')
                                else log_output1);
                             w3 = clear_gpu_memory w2;
                             log_output3 = log env w3 log_output2 ''GPU memory cleared'';
                             partfield_dir = get_partfield_dir env (fs w3)
                         in feature_extraction env log_output3 job_id input_dir output_dir
                              partfield_dir is_point_cloud max_clusters use_agglomerative
                              preprocess_mesh adjacency_option add_knn_edges points_per_face
                              w3)))"

subsection \<open>The handler of the process button\<close>

text \<open>
  \<^verbatim>\<open>on_process\<close> builds the choices of the dropdown and the mapping from label to path. The
  label of a path is computed inside a \<^verbatim>\<open>try\<close> block whose statements cannot raise
  (\<^verbatim>\<open>split\<close> returns at least one piece), so the fallback label of the handler is never
  used. The dictionary \<^verbatim>\<open>files_mapping\<close> is a map; a later path with the same label
  replaces an earlier one.
\<close>

definition result_label :: "string \<Rightarrow> string" where
  "result_label mesh_path =
     (let path = Path mesh_path;
          cluster_count = last (split_on CHR ''_'' (path_stem path));
          format_suffix = (if lower (path_suffix path) = ''.obj'' then '' (UV)'' else [])
      in cluster_count @ '' parts'' @ format_suffix)"

fun on_process_loop ::
  "string list \<Rightarrow> string list \<times> (string \<rightharpoonup> string) \<Rightarrow> string list \<times> (string \<rightharpoonup> string)" where
  "on_process_loop [] acc = acc"
| "on_process_loop (mesh_path # rest) (dropdown_choices, files_mapping) =
     on_process_loop rest
       (dropdown_choices @ [result_label mesh_path],
        files_mapping(result_label mesh_path \<mapsto> mesh_path))"

type_synonym ui_result =
  "string \<times> (string list \<times> string option) \<times> string option \<times> string option \<times> string
     \<times> (string \<rightharpoonup> string)"

definition on_process ::
  "env \<Rightarrow> string \<Rightarrow> string \<Rightarrow> bool \<Rightarrow> int \<Rightarrow> bool \<Rightarrow> bool \<Rightarrow> int \<Rightarrow> bool \<Rightarrow> int \<Rightarrow> world
     \<Rightarrow> (py_exn + ui_result) \<times> world" where
  "on_process env jobs_dir file_path is_pc max_clust use_agglo preprocess adj_opt knn ppf w =
     (case process_3d_file env file_path is_pc max_clust use_agglo preprocess adj_opt knn ppf
             jobs_dir w of
        (Inl e, w') \<Rightarrow> (Inl e, w')
      | (Inr (status, mesh_files, pca_file, log_text), w') \<Rightarrow>
          (case on_process_loop mesh_files ([], Map.empty) of
             (dropdown_choices, files_mapping) \<Rightarrow>
               let first_choice = (case dropdown_choices of [] \<Rightarrow> None | c # cs \<Rightarrow> Some c);
                   first_model = (case first_choice of
                                    None \<Rightarrow> None
                                  | Some c \<Rightarrow> if c = [] then None else files_mapping c)
               in (Inr (status, (dropdown_choices, first_choice), first_model, pca_file,
                        log_text, files_mapping), w')))"

subsection \<open>Vocabulary of the properties\<close>

text \<open>
  The sweep at \<open>cutoff\<close> tries a directory \<open>d\<close>, that is calls \<^verbatim>\<open>rmtree\<close> on it, when \<open>d\<close> is a
  directory whose \<^verbatim>\<open>stat\<close> succeeds with a time of modification that is a valid date
  strictly before the cutoff; \<open>d\<close> is swept when, moreover, the removal does not fail.
  \<open>kept env d q\<close> tells whether the entry \<open>q\<close> is still there after \<^verbatim>\<open>rmtree\<close> of the directory
  \<open>d\<close>, and \<open>after_sweep env ds f\<close> is the file system \<open>f\<close> after \<^verbatim>\<open>rmtree\<close> of the directories
  \<open>ds\<close>.
\<close>

definition tried :: "env \<Rightarrow> fs \<Rightarrow> int \<Rightarrow> path \<Rightarrow> bool" where
  "tried env f cutoff d =
     (path_is_dir f d
      \<and> (case stat env f d of
            Inl e \<Rightarrow> False
          | Inr st \<Rightarrow>
              (case fromtimestamp (n_mtime st) of
                 Inl e \<Rightarrow> False
               | Inr mtime \<Rightarrow> mtime < cutoff)))"

definition sweepable :: "env \<Rightarrow> fs \<Rightarrow> int \<Rightarrow> path \<Rightarrow> bool" where
  "sweepable env f cutoff d = (tried env f cutoff d \<and> fault env (Rmtree d) = None)"

definition kept :: "env \<Rightarrow> path \<Rightarrow> path \<Rightarrow> bool" where
  "kept env d q =
     (\<not> path_under d q \<or> (fault env (Rmtree d) \<noteq> None \<and> (q = d \<or> survives env d q)))"

definition after_sweep :: "env \<Rightarrow> path list \<Rightarrow> fs \<Rightarrow> fs" where
  "after_sweep env ds f = filter (\<lambda>(q, n). list_all (\<lambda>d. kept env d q) ds) f"

text \<open>
  The directories of a job, and \<open>step1_world\<close>: the world in which step 1 starts, that is
  after the validation has passed, the job directory has been set up, the sweep has run
  and the GPU cache has been cleared; \<open>None\<close> when the job does not get that far. The
  captured output of a subprocess is the concatenation of the lines read.
\<close>

definition job_input_dir :: "env \<Rightarrow> string \<Rightarrow> path" where
  "job_input_dir env jobs_dir = pjoin (pjoin (Path jobs_dir) (take 8 (uuid4 env))) ''input''"

definition job_output_dir :: "env \<Rightarrow> string \<Rightarrow> path" where
  "job_output_dir env jobs_dir = pjoin (pjoin (Path jobs_dir) (take 8 (uuid4 env))) ''output''"

definition job_features_dir :: "env \<Rightarrow> fs \<Rightarrow> path" where
  "job_features_dir env f =
     pjoin (pjoin (get_partfield_dir env f) ''exp_results'') (''job_'' @ take 8 (uuid4 env))"

definition step1_world :: "env \<Rightarrow> string \<Rightarrow> string \<Rightarrow> world \<Rightarrow> world option" where
  "step1_world env file_path jobs_dir w =
     (if fst (validate_file (fs w) file_path) then
        (case setup_job_directory env (log env w [] ''File validated successfully'') file_path
                (take 8 (uuid4 env)) (job_input_dir env jobs_dir) (job_output_dir env jobs_dir) w of
           (Inl e, w1) \<Rightarrow> None
         | (Inr log_output, w1) \<Rightarrow>
             (case cleanup_old_jobs env (Path jobs_dir) JOB_EXPIRY_HOURS w1 of
                (Inl e, w2) \<Rightarrow> None
              | (Inr removed, w2) \<Rightarrow> Some (clear_gpu_memory w2)))
      else None)"

definition captured :: "string list \<Rightarrow> string" where
  "captured lines = concat (takeWhile (\<lambda>l. l \<noteq> []) lines)"

definition oom_status :: string where
  "oom_status = ''Error: GPU out of memory. Try reducing '' @ [CHR 0x27]
                  @ ''Points per face'' @ [CHR 0x27] @ '' in advanced options.''"

text \<open>The status and the artifact list of a returned result; \<open>None\<close> for an exception.\<close>

definition status_of :: "py_exn + result \<Rightarrow> string option" where
  "status_of r = (case r of Inl e \<Rightarrow> None | Inr (st, files, pca, l) \<Rightarrow> Some st)"

definition artifacts_of :: "py_exn + result \<Rightarrow> string list option" where
  "artifacts_of r = (case r of Inl e \<Rightarrow> None | Inr (st, files, pca, l) \<Rightarrow> Some files)"

text \<open>The choices of the dropdown and the mapping from label to path in what \<^verbatim>\<open>on_process\<close>
  returns.\<close>

definition choices_of :: "py_exn + ui_result \<Rightarrow> string list" where
  "choices_of r =
     (case r of Inl e \<Rightarrow> [] | Inr (st, (choices, first), model, pca, l, mapping) \<Rightarrow> choices)"

definition mapping_of :: "py_exn + ui_result \<Rightarrow> (string \<rightharpoonup> string)" where
  "mapping_of r =
     (case r of Inl e \<Rightarrow> Map.empty | Inr (st, (choices, first), model, pca, l, mapping) \<Rightarrow> mapping)"

text \<open>The destination of the copy of the input file, and \<open>later w w'\<close>: the trace of \<open>w'\<close>
  continues the trace of \<open>w\<close>.\<close>

definition job_dest_path :: "env \<Rightarrow> string \<Rightarrow> string \<Rightarrow> path" where
  "job_dest_path env file_path jobs_dir =
     pjoin (job_input_dir env jobs_dir) (path_name (Path file_path))"

definition later :: "world \<Rightarrow> world \<Rightarrow> bool" where
  "later w w' = (take (length (trace w)) (trace w') = trace w)"

subsection \<open>Concrete runs\<close>

text \<open>An environment without faults, whose subprocesses print nothing and exit with
  status 0.\<close>

definition env0 :: env where
  "env0 = \<lparr>uuid4 = ''1a2b3c4d-0000-4000-8000-000000000000'', sys_executable = ''python'',
            script_dir = [''/'', ''app''], strftime_HMS = (\<lambda>t. ''12:00:00''),
            fault = (\<lambda>op. None), survives = (\<lambda>d q. True),
            popen = (\<lambda>n. Process [] None 0 (\<lambda>f. f) 0)\<rparr>"





text \<open>
  Four subprocesses: one prints two lines and exits with status 0, one exits with status
  2, one breaks while its output is read, and the last cannot be started.
\<close>

definition echo_env :: env where
  "echo_env = env0\<lparr>popen := (\<lambda>n. if n = 0 then Process [''a'' @ nl, ''b''] None 0 (\<lambda>f. f) 5
                                  else if n = 1 then Process [''failed'' @ nl] None 2 (\<lambda>f. f) 5
                                  else if n = 2 then Process [''x'' @ nl] (Some (Exception ''UnicodeDecodeError'' ''bad byte'')) 0 (\<lambda>f. f) 5
                                  else Popen_raises (Exception ''FileNotFoundError'' ''no such file''))\<rparr>"

definition world0 :: world where
  "world0 = \<lparr>fs = [], clock = 0, spawned = 0, trace = []\<rparr>"

text \<open>
  The world at the harvest of job \<open>1a2b3c4d\<close>: the \<^verbatim>\<open>ply\<close> directory holds meshes for 5, 2
  and 10 parts, a second file for 2 parts in the other format, a mesh whose name carries
  no number and a file of another kind; the features directory holds one projection.
\<close>

definition harvest_out :: path where
  "harvest_out = [''/'', ''jobs'', ''1a2b3c4d'', ''output'']"

definition harvest_feat :: path where
  "harvest_feat = [''/'', ''app'', ''exp_results'', ''job_1a2b3c4d'']"

definition harvest_fs :: fs where
  "harvest_fs =
     [(harvest_out, Node True 0 0),
      (harvest_out @ [''ply''], Node True 0 0),
      (harvest_out @ [''ply'', ''x_0_5.ply''], Node False 1 0),
      (harvest_out @ [''ply'', ''x_0_2.ply''], Node False 1 0),
      (harvest_out @ [''ply'', ''x_0_2.obj''], Node False 1 0),
      (harvest_out @ [''ply'', ''x_0_10.ply''], Node False 1 0),
      (harvest_out @ [''ply'', ''notes.ply''], Node False 1 0),
      (harvest_out @ [''ply'', ''x_0_3.txt''], Node False 1 0),
      (harvest_feat, Node True 0 0),
      (harvest_feat @ [''feat_pca_x_0.ply''], Node False 1 0)]"

definition harvest_world :: world where
  "harvest_world = \<lparr>fs = harvest_fs, clock = 0, spawned = 2, trace = []\<rparr>"

text \<open>
  A job: the upload \<^verbatim>\<open>/tmp/chair.obj\<close>, the installation in \<^verbatim>\<open>/app\<close> and the jobs root
  \<^verbatim>\<open>/jobs\<close>, not yet created. In \<open>oom_env\<close> the first subprocess reports that the GPU is
  out of memory and exits with status 1; in \<open>crash_env\<close> it dies with status 139.
\<close>

definition job_fs :: fs where
  "job_fs =
     [([''/'', ''tmp'', ''chair.obj''], Node False 2048 7),
      ([''/'', ''app''], Node True 0 0),
      ([''/'', ''app'', ''partfield_inference.py''], Node False 10 0)]"

definition job_world :: world where
  "job_world = \<lparr>fs = job_fs, clock = 1000, spawned = 0, trace = []\<rparr>"

definition oom_env :: env where
  "oom_env = env0\<lparr>popen := (\<lambda>n. Process [''loading'' @ nl, ''RuntimeError: CUDA out of memory.'' @ nl]
                                   None 1 (\<lambda>f. f) 9)\<rparr>"

definition crash_env :: env where
  "crash_env = env0\<lparr>popen := (\<lambda>n. Process [''Segmentation fault'' @ nl] None 139 (\<lambda>f. f) 9)\<rparr>"

text \<open>
  Runs of the job above in which both subprocesses exit with status 0. The first writes
  the features directory with one projection. The second writes either an empty \<^verbatim>\<open>ply\<close>
  directory (\<open>empty_effect\<close>) or three meshes (\<open>mesh_effect\<close>). In \<open>locked_env\<close> the removal
  of the features directory is refused. \<open>ready_fs\<close> is the file system in which step 1
  starts.
\<close>

definition stage1_effect :: "fs \<Rightarrow> fs" where
  "stage1_effect f =
     f @ [(harvest_feat, Node True 0 2000),
          (harvest_feat @ [''feat_pca_chair_0.ply''], Node False 99 2000)]"

definition empty_effect :: "fs \<Rightarrow> fs" where
  "empty_effect f = f @ [(harvest_out @ [''ply''], Node True 0 3000)]"

definition mesh_effect :: "fs \<Rightarrow> fs" where
  "mesh_effect f =
     f @ [(harvest_out @ [''ply''], Node True 0 3000),
          (harvest_out @ [''ply'', ''chair_0_3.ply''], Node False 5 3000),
          (harvest_out @ [''ply'', ''chair_0_2.ply''], Node False 5 3000),
          (harvest_out @ [''ply'', ''chair_0_2.obj''], Node False 5 3000)]"

definition two_stage_env :: "(fs \<Rightarrow> fs) \<Rightarrow> env" where
  "two_stage_env eff2 =
     env0\<lparr>popen := (\<lambda>n. if n = 0 then Process [''features written'' @ nl] None 0 stage1_effect 60
                        else Process [''clusters written'' @ nl] None 0 eff2 30)\<rparr>"

definition locked_env :: env where
  "locked_env =
     (two_stage_env mesh_effect)
       \<lparr>fault := (\<lambda>op. if op = Rmtree harvest_feat
                       then Some (Exception ''PermissionError'' ''denied'') else None)\<rparr>"

definition ready_fs :: fs where
  "ready_fs =
     job_fs @
     [([''/''], Node True 0 1000),
      ([''/'', ''jobs''], Node True 0 1000),
      ([''/'', ''jobs'', ''1a2b3c4d''], Node True 0 1000),
      ([''/'', ''jobs'', ''1a2b3c4d'', ''input''], Node True 0 1000),
      ([''/'', ''jobs'', ''1a2b3c4d'', ''output''], Node True 0 1000),
      ([''/'', ''jobs'', ''1a2b3c4d'', ''input'', ''chair.obj''], Node False 2048 7)]"

text \<open>A second subprocess that writes the three meshes and puts a regular file in the place
  of the features directory.\<close>

definition spoil_effect :: "fs \<Rightarrow> fs" where
  "spoil_effect f = mesh_effect (remove_tree harvest_feat f) @ [(harvest_feat, Node False 1 3000)]"

text \<open>The artifact list of the run with three meshes.\<close>

definition chair_files :: "string list" where
  "chair_files = [''/jobs/1a2b3c4d/output/ply/chair_0_2.ply'',
                  ''/jobs/1a2b3c4d/output/ply/chair_0_2.obj'',
                  ''/jobs/1a2b3c4d/output/ply/chair_0_3.ply'']"

text \<open>An artifact list in which two \<^verbatim>\<open>.ply\<close> files end in the same piece.\<close>

definition twin_files :: "string list" where
  "twin_files = [''/o/ply/a_0_5.ply'', ''/o/ply/b_0_5.ply'', ''/o/ply/b_0_5.obj'']"

text \<open>An environment in which the input directory of the job cannot be created.\<close>

definition denied_env :: env where
  "denied_env =
     env0\<lparr>fault := (\<lambda>op. if op = Mkdir [''/'', ''jobs'', ''1a2b3c4d'', ''input'']
                          then Some (Exception ''PermissionError'' ''denied'') else None)\<rparr>"

section \<open>Properties\<close>

lemmas path_eval = Path_def path_comps_def path_exists_def path_is_dir_def path_suffix_def
  path_name_def path_stem_def pjoin_def lower_def lower_char_def capitals_def smalls_def
  str_path_def

subsection \<open>The retention sweep\<close>

lemma fs_emit [simp]: "fs (emit e w) = fs w" "clock (emit e w) = clock w" "spawned (emit e w) = spawned w"
  by (simp_all add: emit_def)

lemma map_of_filter_key:
  "map_of (filter (\<lambda>(p, n). Q p) f) d = (if Q d then map_of f d else None)"
  by (induction f) auto



lemma after_sweep_Nil [simp]: "after_sweep env [] f = f"
  by (simp add: after_sweep_def)



lemma rmtree_dir:
  assumes "path_is_dir (fs w) d"
  shows "\<exists>r w'. rmtree env d w = (r, w')
           \<and> fs w' = filter (\<lambda>(q, n). kept env d q) (fs w)
           \<and> ((\<exists>u. r = Inr u) \<longleftrightarrow> fault env (Rmtree d) = None)"
proof -
  have ex: "path_exists (fs w) d"
    using assms by (auto simp: path_is_dir_def path_exists_def split: option.splits)
  show ?thesis
  proof (cases "fault env (Rmtree d)")
    case None
    then show ?thesis using assms ex
      by (simp add: rmtree_def Let_def remove_tree_def kept_def)
  next
    case (Some e)
    then show ?thesis using assms ex
      by (simp add: rmtree_def Let_def partly_removed_def kept_def)
  qed
qed



lemma sweepable_without_faults:
  "fault env (Stat d) = None \<Longrightarrow> fault env (Rmtree d) = None \<Longrightarrow> map_of f d = Some n \<Longrightarrow>
   DATETIME_MIN \<le> n_mtime n \<Longrightarrow> n_mtime n \<le> DATETIME_MAX \<Longrightarrow>
   sweepable env f cutoff d = (n_is_dir n \<and> n_mtime n < cutoff)"
  by (simp add: sweepable_def tried_def path_is_dir_def stat_def fromtimestamp_def)


lemma cleanup_old_jobs_missing_root:
  "\<not> path_exists (fs w) jobs_dir \<Longrightarrow>
   cleanup_old_jobs env jobs_dir expiry_hours w = (Inr 0, emit (Ev_cleanup jobs_dir) w)"
  by (simp add: cleanup_old_jobs_def Let_def)





subsection \<open>Validation\<close>

text \<open>
  Claim C8. A file whose stem, in lower case, is \<open>car\<close> or \<open>complex_car\<close> is rejected by
  \<^verbatim>\<open>validate_file\<close>, whatever its extension, its size and the file system.
\<close>

theorem validate_file_rejects_reserved:
  assumes "lower (path_stem (Path file_path)) \<in> {''car'', ''complex_car''}"
  shows "fst (validate_file f file_path) = False"
  using assms by (simp add: validate_file_def Let_def)

theorem validate_file_rejects_reserved_witness:
  "lower (path_stem (Path ''/tmp/Car.obj'')) \<in> {''car'', ''complex_car''}
   \<and> lower (path_suffix (Path ''/tmp/Car.obj'')) \<in> set SUPPORTED_EXTENSIONS
   \<and> fst (validate_file [([''/'', ''tmp'', ''Car.obj''], Node False 10 5)] ''/tmp/Car.obj'') = False
   \<and> lower (path_stem (Path ''uploads/COMPLEX_CAR.xyz'')) \<in> {''car'', ''complex_car''}
   \<and> fst (validate_file [] ''uploads/COMPLEX_CAR.xyz'') = False"
proof -
  have h1: "lower (path_stem (Path ''/tmp/Car.obj'')) \<in> {''car'', ''complex_car''}"
    by (simp add: path_eval)
  have h2: "lower (path_stem (Path ''uploads/COMPLEX_CAR.xyz'')) \<in> {''car'', ''complex_car''}"
    by (simp add: path_eval)
  have h3: "lower (path_suffix (Path ''/tmp/Car.obj'')) \<in> set SUPPORTED_EXTENSIONS"
    by (simp add: path_eval SUPPORTED_EXTENSIONS_def)
  show ?thesis
    using h1 h2 h3 validate_file_rejects_reserved [OF h1] validate_file_rejects_reserved [OF h2]
    by blast
qed

subsection \<open>Running a command\<close>

lemma read_output_quiet:
  "read_output None lines None acc = Inr (acc @ takeWhile (\<lambda>l. l \<noteq> []) lines)"
  by (induction lines arbitrary: acc) simp_all

lemma read_output_total_callback:
  "read_output (Some (\<lambda>output. Inr (g output))) lines None acc
     = Inr (acc @ takeWhile (\<lambda>l. l \<noteq> []) lines)"
  by (induction lines arbitrary: acc) simp_all

text \<open>
  Claim C10. For every command, working directory, callback and world, \<^verbatim>\<open>run_command\<close>
  returns a pair and raises nothing. When \<^verbatim>\<open>Popen\<close> raises, or reading the output (the
  callback included) raises, the result is \<open>False\<close> with the text \<open>Command failed: \<close> followed
  by the message of the exception. When the output is read to its end the result is the
  test \<open>returncode = 0\<close> with the captured output. So the result is \<open>True\<close> exactly when the
  process was started, its output was read to the end and its exit status is 0.
\<close>

theorem run_command_never_raises:
  "(\<exists>ok out. fst (run_command env cmd cwd log_callback w) = Inr (ok, out))
   \<and> (\<forall>e. popen env (spawned w) = Popen_raises e \<longrightarrow>
         fst (run_command env cmd cwd log_callback w)
           = Inr (False, ''Command failed: '' @ str_exn e))
   \<and> (\<forall>lines err rc eff dt e.
         popen env (spawned w) = Process lines err rc eff dt
         \<and> read_output log_callback lines err [] = Inl e \<longrightarrow>
         fst (run_command env cmd cwd log_callback w)
           = Inr (False, ''Command failed: '' @ str_exn e))
   \<and> (\<forall>lines err rc eff dt output_lines.
         popen env (spawned w) = Process lines err rc eff dt
         \<and> read_output log_callback lines err [] = Inr output_lines \<longrightarrow>
         fst (run_command env cmd cwd log_callback w) = Inr (rc = 0, concat output_lines))
   \<and> ((\<exists>out. fst (run_command env cmd cwd log_callback w) = Inr (True, out))
        \<longleftrightarrow> (\<exists>lines err eff dt output_lines.
               popen env (spawned w) = Process lines err 0 eff dt
               \<and> read_output log_callback lines err [] = Inr output_lines))"
proof (cases "popen env (spawned w)")
  case (Popen_raises e)
  then show ?thesis by (auto simp: run_command_def run_command_try_def Let_def)
next
  case (Process lines err rc eff dt)
  show ?thesis
  proof (cases "read_output log_callback lines err []")
    case (Inl e)
    with Process show ?thesis by (auto simp: run_command_def run_command_try_def Let_def)
  next
    case (Inr output_lines)
    with Process show ?thesis by (auto simp: run_command_def run_command_try_def Let_def)
  qed
qed

theorem run_command_never_raises_witness:
  "fst (run_command echo_env [''ls''] [''/''] None world0) = Inr (True, ''a'' @ nl @ ''b'')
   \<and> fst (run_command echo_env [''ls''] [''/''] None (world0\<lparr>spawned := 1\<rparr>))
       = Inr (False, ''failed'' @ nl)
   \<and> fst (run_command echo_env [''ls''] [''/''] None (world0\<lparr>spawned := 2\<rparr>))
       = Inr (False, ''Command failed: bad byte'')
   \<and> fst (run_command echo_env [''ls''] [''/''] None (world0\<lparr>spawned := 3\<rparr>))
       = Inr (False, ''Command failed: no such file'')"
proof -
  have p0: "popen echo_env (spawned world0) = Process [''a'' @ nl, ''b''] None 0 (\<lambda>f. f) 5"
    by (simp add: echo_env_def env0_def world0_def)
  have r0: "read_output None [''a'' @ nl, ''b''] None [] = Inr [''a'' @ nl, ''b'']"
    by (simp add: nl_def)
  have p1: "popen echo_env (spawned (world0\<lparr>spawned := 1\<rparr>)) = Process [''failed'' @ nl] None 2 (\<lambda>f. f) 5"
    by (simp add: echo_env_def env0_def world0_def)
  have r1: "read_output None [''failed'' @ nl] None [] = Inr [''failed'' @ nl]"
    by (simp add: nl_def)
  have p2: "popen echo_env (spawned (world0\<lparr>spawned := 2\<rparr>))
      = Process [''x'' @ nl] (Some (Exception ''UnicodeDecodeError'' ''bad byte'')) 0 (\<lambda>f. f) 5"
    by (simp add: echo_env_def env0_def world0_def)
  have r2: "read_output None [''x'' @ nl] (Some (Exception ''UnicodeDecodeError'' ''bad byte'')) []
      = Inl (Exception ''UnicodeDecodeError'' ''bad byte'')"
    by (simp add: nl_def)
  have p3: "popen echo_env (spawned (world0\<lparr>spawned := 3\<rparr>))
      = Popen_raises (Exception ''FileNotFoundError'' ''no such file'')"
    by (simp add: echo_env_def env0_def world0_def)
  show ?thesis
    using run_command_never_raises [of echo_env "[''ls'']" "[''/'']" None world0] p0 r0
      run_command_never_raises [of echo_env "[''ls'']" "[''/'']" None "world0\<lparr>spawned := 1\<rparr>"] p1 r1
      run_command_never_raises [of echo_env "[''ls'']" "[''/'']" None "world0\<lparr>spawned := 2\<rparr>"] p2 r2
      run_command_never_raises [of echo_env "[''ls'']" "[''/'']" None "world0\<lparr>spawned := 3\<rparr>"] p3
    by simp
qed

subsection \<open>The harvest\<close>

lemma split_on_not_Nil: "split_on sep s \<noteq> []"
  by (induction s) (auto split: list.splits)

lemma get_cluster_count_eq:
  "get_cluster_count p =
     (case py_int (last (split_on CHR ''_'' (path_stem p))) of Some n \<Rightarrow> n | None \<Rightarrow> 0)"
proof (cases "split_on CHR ''_'' (path_stem p)")
  case Nil
  then show ?thesis using split_on_not_Nil by blast
next
  case (Cons t ts)
  then show ?thesis by (simp add: get_cluster_count_def)
qed

lemma collect_results_files:
  assumes "collect_results env lo out feat mc pca w = (Inr (st, files, pca', l), w')"
  shows "files = map str_path (mesh_list (fs w) out)"
proof (cases "mesh_list (fs w) out = []")
  case True
  with assms show ?thesis by (simp add: collect_results_def)
next
  case False
  with assms show ?thesis by (simp add: collect_results_def Let_def)
qed

lemmas harvest_eval = harvest_fs_def harvest_out_def harvest_feat_def harvest_world_def
  mesh_list_def globbed_def glob_suffix_def iterdir_def is_entry_name_def endswith_def
  get_cluster_count_def py_int_def strip_def is_space_def digit_val_def

lemma harvest_globbed:
  "globbed harvest_fs harvest_out =
     [harvest_out @ [''ply'', ''x_0_5.ply''], harvest_out @ [''ply'', ''x_0_2.ply''],
      harvest_out @ [''ply'', ''x_0_10.ply''], harvest_out @ [''ply'', ''notes.ply''],
      harvest_out @ [''ply'', ''x_0_2.obj'']]"
  by (simp add: harvest_eval path_eval)

lemma harvest_keys:
  "get_cluster_count (harvest_out @ [''ply'', ''x_0_5.ply'']) = 5"
  "get_cluster_count (harvest_out @ [''ply'', ''x_0_2.ply'']) = 2"
  "get_cluster_count (harvest_out @ [''ply'', ''x_0_10.ply'']) = 10"
  "get_cluster_count (harvest_out @ [''ply'', ''notes.ply'']) = 0"
  "get_cluster_count (harvest_out @ [''ply'', ''x_0_2.obj'']) = 2"
  by (simp_all add: harvest_eval path_eval)

lemma harvest_mesh_list:
  "mesh_list harvest_fs harvest_out =
     [harvest_out @ [''ply'', ''notes.ply''], harvest_out @ [''ply'', ''x_0_2.ply''],
      harvest_out @ [''ply'', ''x_0_2.obj''], harvest_out @ [''ply'', ''x_0_5.ply''],
      harvest_out @ [''ply'', ''x_0_10.ply'']]"
  unfolding mesh_list_def harvest_globbed by (simp add: harvest_keys)


lemma collect_results_returns:
  "\<exists>st files pca' l w'.
     collect_results env lo out feat mc pca w = (Inr (st, files, pca', l), w')"
  by (simp add: collect_results_def Let_def)

subsection \<open>From the submission to step 1\<close>

lemma trace_emit [simp]: "trace (emit e w) = trace w @ [e]"
  by (simp add: emit_def)

lemma mkdir_spawned: "mkdir env p w = (r, w') \<Longrightarrow> spawned w' = spawned w"
  by (auto simp: mkdir_def Let_def split: option.splits if_splits)

lemma mkdir_trace: "mkdir env p w = (r, w') \<Longrightarrow> trace w' = trace w @ [Ev_mkdir p]"
  by (auto simp: mkdir_def Let_def split: option.splits if_splits)

lemma copy2_spawned: "copy2 env s d w = (r, w') \<Longrightarrow> spawned w' = spawned w"
  by (auto simp: copy2_def Let_def split: option.splits if_splits)

lemma copy2_trace: "copy2 env s d w = (r, w') \<Longrightarrow> trace w' = trace w @ [Ev_copy2 s d]"
  by (auto simp: copy2_def Let_def split: option.splits if_splits)

lemma rmtree_spawned: "rmtree env p w = (r, w') \<Longrightarrow> spawned w' = spawned w"
  by (auto simp: rmtree_def Let_def split: option.splits if_splits)

lemma rmtree_trace: "rmtree env p w = (r, w') \<Longrightarrow> trace w' = trace w @ [Ev_rmtree p]"
  by (auto simp: rmtree_def Let_def split: option.splits if_splits)

lemma cleanup_loop_spawned: "spawned (snd (cleanup_loop env c ds k w)) = spawned w"
proof (induction ds arbitrary: k w)
  case Nil
  then show ?case by simp
next
  case (Cons d ds)
  obtain r w' where rm: "rmtree env d w = (r, w')" by (cases "rmtree env d w")
  then have "spawned w' = spawned w" by (rule rmtree_spawned)
  then show ?case using Cons.IH rm
    by (cases r) (simp_all split: sum.splits)
qed

lemma cleanup_old_jobs_spawned:
  assumes "cleanup_old_jobs env d h w = (r, w')"
  shows "spawned w' = spawned w"
proof -
  have l: "cleanup_loop env c ds k w0 = (r, w') \<Longrightarrow> spawned w' = spawned w0" for c ds k w0
    using cleanup_loop_spawned [of env c ds k w0] by simp
  show ?thesis
    using assms
    by (auto simp: cleanup_old_jobs_def Let_def split: if_splits sum.splits dest!: l)
qed

lemma setup_job_directory_spawned:
  assumes "setup_job_directory env lo fp jid inp out w = (r, w')"
  shows "spawned w' = spawned w"
proof -
  obtain r1 w1 where m1: "mkdir env inp w = (r1, w1)" by (cases "mkdir env inp w")
  obtain r2 w2 where m2: "mkdir env out w1 = (r2, w2)" by (cases "mkdir env out w1")
  obtain r3 w3 where m3: "copy2 env fp (pjoin inp (path_name (Path fp))) w2 = (r3, w3)"
    by (cases "copy2 env fp (pjoin inp (path_name (Path fp))) w2")
  have s: "spawned w1 = spawned w" "spawned w2 = spawned w1" "spawned w3 = spawned w2"
    using m1 m2 m3 mkdir_spawned copy2_spawned by blast+
  show ?thesis using assms m1 m2 m3 s
    by (auto simp: setup_job_directory_def Let_def split: sum.splits)
qed

lemma step1_world_spawned:
  assumes "step1_world env fp jd w = Some w3"
  shows "spawned w3 = spawned w"
  using assms unfolding step1_world_def
  by (auto simp: clear_gpu_memory_def split: if_splits prod.splits sum.splits
      dest!: setup_job_directory_spawned cleanup_old_jobs_spawned)

lemma process_from_step1:
  assumes "step1_world env fp jd w = Some w3"
  shows "\<exists>lo. process_3d_file env fp ipc mc ua pm ao knn ppf jd w
           = feature_extraction env lo (take 8 (uuid4 env)) (job_input_dir env jd)
               (job_output_dir env jd) (get_partfield_dir env (fs w3))
               ipc mc ua pm ao knn ppf w3"
  using assms unfolding step1_world_def process_3d_file_def Let_def
    job_input_dir_def job_output_dir_def
  by (auto split: if_splits prod.splits sum.splits)

lemma run_command_process:
  assumes "popen env (spawned w) = Process lines None rc eff dt"
  shows "\<exists>w1. run_command env cmd cwd (Some (\<lambda>output. Inr (g output))) w
             = (Inr (rc = 0, captured lines), w1)
           \<and> fs w1 = eff (fs w) \<and> spawned w1 = Suc (spawned w)
           \<and> trace w1 = trace w @ [Ev_popen cmd cwd]"
  using assms
  by (simp add: run_command_def run_command_try_def Let_def read_output_total_callback
      captured_def)

subsection \<open>Failure of the feature extraction\<close>

lemma feature_extraction_failure:
  assumes "popen env (spawned w) = Process lines None rc eff dt" and "rc \<noteq> 0"
  shows "\<exists>l w1. feature_extraction env lo jid inp out pdir ipc mc ua pm ao knn ppf w
           = (Inr (if contains (captured lines) ''CUDA out of memory''
                       \<or> contains (captured lines) ''OutOfMemoryError''
                    then oom_status else ''Error: Feature extraction failed'',
                   [], None, l), w1)"
proof -
  define lo2 where "lo2 = log env w (log env w lo ''Starting feature extraction...'')
      (''Running: '' @ join '' '' (take 5 (inference_cmd env (''job_'' @ jid) inp ipc ppf pm)) @ ''...'')"
  obtain w1 where rc: "run_command env (inference_cmd env (''job_'' @ jid) inp ipc ppf pm) pdir
      (Some (\<lambda>output. Inr (update_log lo2 output))) w = (Inr (rc = 0, captured lines), w1)"
    using run_command_process [OF assms(1)] by blast
  show ?thesis
    unfolding feature_extraction_def Let_def lo2_def [symmetric] rc
    using assms(2) by (simp add: oom_status_def)
qed

text \<open>
  Claim C1. Take a job that reaches step 1 and whose first subprocess runs and exits with
  a status other than 0. If the captured output contains \<open>CUDA out of memory\<close> or
  \<open>OutOfMemoryError\<close>, \<^verbatim>\<open>process_3d_file\<close> returns the status that names the GPU memory and
  advises to reduce the points per face; otherwise it returns the status
  \<open>Error: Feature extraction failed\<close>. In both cases the artifact list is empty and there
  is no auxiliary artifact.
\<close>

theorem stage1_failure_classified:
  assumes "step1_world env file_path jobs_dir w = Some w3"
    and "popen env (spawned w) = Process lines None rc eff dt"
    and "rc \<noteq> 0"
  shows "\<exists>l w'. process_3d_file env file_path is_point_cloud max_clusters use_agglomerative
                  preprocess_mesh adjacency_option add_knn_edges points_per_face jobs_dir w
           = (Inr (if contains (captured lines) ''CUDA out of memory''
                       \<or> contains (captured lines) ''OutOfMemoryError''
                    then ''Error: GPU out of memory. Try reducing '' @ [CHR 0x27]
                           @ ''Points per face'' @ [CHR 0x27] @ '' in advanced options.''
                    else ''Error: Feature extraction failed'',
                   [], None, l), w')"
proof -
  have p: "popen env (spawned w3) = Process lines None rc eff dt"
    using assms(1,2) step1_world_spawned by simp
  obtain lo where "process_3d_file env file_path is_point_cloud max_clusters use_agglomerative
                  preprocess_mesh adjacency_option add_knn_edges points_per_face jobs_dir w
           = feature_extraction env lo (take 8 (uuid4 env)) (job_input_dir env jobs_dir)
               (job_output_dir env jobs_dir) (get_partfield_dir env (fs w3))
               is_point_cloud max_clusters use_agglomerative preprocess_mesh adjacency_option
               add_knn_edges points_per_face w3"
    using process_from_step1 [OF assms(1)] by blast
  then show ?thesis
    using feature_extraction_failure [OF p assms(3), unfolded oom_status_def] by metis
qed

lemmas world_eval = step1_world_def setup_job_directory_def mkdir_def copy2_def
  cleanup_old_jobs_def validate_file_def job_input_dir_def job_output_dir_def
  prefixes_of_def add_dir_def fs_put_def iterdir_def is_entry_name_def emit_def
  clear_gpu_memory_def SUPPORTED_EXTENSIONS_def JOB_EXPIRY_HOURS_def log_def Let_def stat_def
  rmtree_def is_dir_def cutoff_of_def timedelta_hours_def datetime_sub_def fromtimestamp_def
  DATETIME_MIN_def DATETIME_MAX_def

lemma job_world_ready_oom:
  "\<exists>w3. step1_world oom_env ''/tmp/chair.obj'' ''/jobs'' job_world = Some w3"
  by (simp add: world_eval path_eval oom_env_def env0_def job_world_def job_fs_def upt_rec)


lemma job_world_ready_crash:
  "\<exists>w3. step1_world crash_env ''/tmp/chair.obj'' ''/jobs'' job_world = Some w3"
  by (simp add: world_eval path_eval crash_env_def env0_def job_world_def job_fs_def upt_rec)

theorem stage1_failure_classified_witness:
  "(\<exists>l w'. process_3d_file oom_env ''/tmp/chair.obj'' False 20 True False 1 False 1000 ''/jobs''
              job_world
            = (Inr (''Error: GPU out of memory. Try reducing '' @ [CHR 0x27]
                      @ ''Points per face'' @ [CHR 0x27] @ '' in advanced options.'',
                    [], None, l), w'))
   \<and> (\<exists>l w'. process_3d_file crash_env ''/tmp/chair.obj'' False 20 True False 1 False 1000
                ''/jobs'' job_world
              = (Inr (''Error: Feature extraction failed'', [], None, l), w'))"
proof -
  obtain w3 where r1: "step1_world oom_env ''/tmp/chair.obj'' ''/jobs'' job_world = Some w3"
    using job_world_ready_oom by blast
  have p1: "popen oom_env (spawned job_world)
      = Process [''loading'' @ nl, ''RuntimeError: CUDA out of memory.'' @ nl] None 1 (\<lambda>f. f) 9"
    by (simp add: oom_env_def env0_def)
  have c1: "contains (captured [''loading'' @ nl, ''RuntimeError: CUDA out of memory.'' @ nl])
              ''CUDA out of memory''"
    by (simp add: captured_def nl_def)
  obtain w4 where r2: "step1_world crash_env ''/tmp/chair.obj'' ''/jobs'' job_world = Some w4"
    using job_world_ready_crash by blast
  have p2: "popen crash_env (spawned job_world)
      = Process [''Segmentation fault'' @ nl] None 139 (\<lambda>f. f) 9"
    by (simp add: crash_env_def env0_def)
  have c2: "\<not> contains (captured [''Segmentation fault'' @ nl]) ''CUDA out of memory''"
      "\<not> contains (captured [''Segmentation fault'' @ nl]) ''OutOfMemoryError''"
    by (simp_all add: captured_def nl_def)
  have n: "(1::int) \<noteq> 0" "(139::int) \<noteq> 0" by simp_all
  show ?thesis
    using stage1_failure_classified [OF r1 p1 n(1), of False 20 True False 1 False 1000]
      stage1_failure_classified [OF r2 p2 n(2), of False 20 True False 1 False 1000]
    unfolding if_P [OF disjI1 [OF c1]] using c2 by simp
qed

subsection \<open>From step 1 to the harvest\<close>

lemma step1_to_step2:
  assumes "popen env (spawned w) = Process lines None 0 eff dt"
  shows "\<exists>lo' pca cmd w1.
           feature_extraction env lo jid inp out pdir ipc mc ua pm ao knn ppf w
             = clustering env lo' inp out (pjoin (pjoin pdir ''exp_results'') (''job_'' @ jid))
                 pdir ipc mc ua ao knn pca w1
           \<and> fs w1 = eff (fs w) \<and> spawned w1 = Suc (spawned w)
           \<and> trace w1 = trace w @ [Ev_popen cmd pdir]"
proof -
  define lo2 where "lo2 = log env w (log env w lo ''Starting feature extraction...'')
      (''Running: '' @ join '' '' (take 5 (inference_cmd env (''job_'' @ jid) inp ipc ppf pm)) @ ''...'')"
  obtain w1 where rc: "run_command env (inference_cmd env (''job_'' @ jid) inp ipc ppf pm) pdir
      (Some (\<lambda>output. Inr (update_log lo2 output))) w = (Inr (True, captured lines), w1)"
    and w1: "fs w1 = eff (fs w)" "spawned w1 = Suc (spawned w)"
      "trace w1 = trace w @ [Ev_popen (inference_cmd env (''job_'' @ jid) inp ipc ppf pm) pdir]"
    using run_command_process [OF assms] by fastforce
  show ?thesis
    unfolding feature_extraction_def Let_def lo2_def [symmetric] rc
    using w1 by auto
qed

lemma step2_to_step3:
  assumes "popen env (spawned w) = Process lines None 0 eff dt"
  shows "\<exists>lo' cmd w1.
           clustering env lo inp out feat pdir ipc mc ua ao knn pca w
             = collect_results env lo' out feat mc pca w1
           \<and> fs w1 = eff (fs w) \<and> spawned w1 = Suc (spawned w)
           \<and> trace w1 = trace w @ [Ev_popen cmd pdir]"
proof -
  define lo2 where "lo2 = log env w (log env w lo ''Starting clustering...'')
            (''Running clustering with max '' @ str_int mc @ '' clusters...'')"
  obtain w1 where rc: "run_command env (clustering_cmd env feat out inp mc ipc ua ao knn) pdir
      (Some (\<lambda>output. Inr (update_log lo2 output))) w = (Inr (True, captured lines), w1)"
    and w1: "fs w1 = eff (fs w)" "spawned w1 = Suc (spawned w)"
      "trace w1 = trace w @ [Ev_popen (clustering_cmd env feat out inp mc ipc ua ao knn) pdir]"
    using run_command_process [OF assms] by fastforce
  show ?thesis
    unfolding clustering_def Let_def lo2_def [symmetric] rc
    using w1 by auto
qed

lemma process_to_step3:
  assumes "step1_world env fp jd w = Some w3"
    and "popen env (spawned w) = Process lines1 None 0 eff1 dt1"
    and "popen env (Suc (spawned w)) = Process lines2 None 0 eff2 dt2"
  shows "\<exists>lo pca cmd1 cmd2 w5.
           process_3d_file env fp ipc mc ua pm ao knn ppf jd w
             = collect_results env lo (job_output_dir env jd) (job_features_dir env (fs w3))
                 mc pca w5
           \<and> fs w5 = eff2 (eff1 (fs w3))
           \<and> trace w5 = trace w3 @ [Ev_popen cmd1 (get_partfield_dir env (fs w3)),
                                     Ev_popen cmd2 (get_partfield_dir env (fs w3))]"
proof -
  have sp: "spawned w3 = spawned w" using assms(1) by (rule step1_world_spawned)
  obtain lo where a: "process_3d_file env fp ipc mc ua pm ao knn ppf jd w
           = feature_extraction env lo (take 8 (uuid4 env)) (job_input_dir env jd)
               (job_output_dir env jd) (get_partfield_dir env (fs w3))
               ipc mc ua pm ao knn ppf w3"
    using process_from_step1 [OF assms(1)] by blast
  have p1: "popen env (spawned w3) = Process lines1 None 0 eff1 dt1" using assms(2) sp by simp
  obtain lo' pca cmd1 w4 where b: "feature_extraction env lo (take 8 (uuid4 env)) (job_input_dir env jd)
               (job_output_dir env jd) (get_partfield_dir env (fs w3))
               ipc mc ua pm ao knn ppf w3
        = clustering env lo' (job_input_dir env jd) (job_output_dir env jd)
            (job_features_dir env (fs w3)) (get_partfield_dir env (fs w3)) ipc mc ua ao knn pca w4"
    and w4: "fs w4 = eff1 (fs w3)" "spawned w4 = Suc (spawned w3)"
      "trace w4 = trace w3 @ [Ev_popen cmd1 (get_partfield_dir env (fs w3))]"
    using step1_to_step2 [OF p1, of lo "take 8 (uuid4 env)" "job_input_dir env jd"
        "job_output_dir env jd" "get_partfield_dir env (fs w3)" ipc mc ua pm ao knn ppf]
    unfolding job_features_dir_def by blast
  have p2: "popen env (spawned w4) = Process lines2 None 0 eff2 dt2"
    using assms(3) sp w4(2) by simp
  obtain lo'' cmd2 w5 where c: "clustering env lo' (job_input_dir env jd) (job_output_dir env jd)
            (job_features_dir env (fs w3)) (get_partfield_dir env (fs w3)) ipc mc ua ao knn pca w4
       = collect_results env lo'' (job_output_dir env jd) (job_features_dir env (fs w3)) mc pca w5"
    and w5: "fs w5 = eff2 (fs w4)"
      "trace w5 = trace w4 @ [Ev_popen cmd2 (get_partfield_dir env (fs w3))]"
    using step2_to_step3 [OF p2] by blast
  have e: "process_3d_file env fp ipc mc ua pm ao knn ppf jd w
       = collect_results env lo'' (job_output_dir env jd) (job_features_dir env (fs w3)) mc pca w5"
    using a b c by simp
  have f: "fs w5 = eff2 (eff1 (fs w3))" using w4 w5 by simp
  have t: "trace w5 = trace w3 @ [Ev_popen cmd1 (get_partfield_dir env (fs w3)),
                                     Ev_popen cmd2 (get_partfield_dir env (fs w3))]"
    using w4 w5 by simp
  show ?thesis using e f t by blast
qed


lemma collect_results_empty:
  assumes "globbed (fs w) out = []"
  shows "\<exists>l. collect_results env lo out feat mc pca w
           = (Inr (''Warning: No output files generated'', [], pca, l), w)"
  using assms by (simp add: collect_results_def mesh_list_def)

lemma empty_harvest_run:
  assumes "step1_world env file_path jobs_dir w = Some w3"
    and "popen env (spawned w) = Process lines1 None 0 eff1 dt1"
    and "popen env (Suc (spawned w)) = Process lines2 None 0 eff2 dt2"
    and "globbed (eff2 (eff1 (fs w3))) (job_output_dir env jobs_dir) = []"
  shows "\<exists>pca l w'. process_3d_file env file_path ipc mc ua pm ao knn ppf jobs_dir w
           = (Inr (''Warning: No output files generated'', [], pca, l), w')
           \<and> fs w' = eff2 (eff1 (fs w3))"
proof -
  obtain lo pca cmd1 cmd2 w5 where
    e: "process_3d_file env file_path ipc mc ua pm ao knn ppf jobs_dir w
         = collect_results env lo (job_output_dir env jobs_dir) (job_features_dir env (fs w3))
             mc pca w5"
    and f: "fs w5 = eff2 (eff1 (fs w3))"
    using process_to_step3 [OF assms(1,2,3)] by blast
  have "globbed (fs w5) (job_output_dir env jobs_dir) = []"
    using assms(4) f by simp
  then show ?thesis using collect_results_empty e f by metis
qed

lemma kept_gone:
  "fault env (Rmtree d) = None \<Longrightarrow> \<not> path_exists (filter (\<lambda>(q, n). kept env d q) f) d"
  by (simp add: path_exists_def map_of_filter_key kept_def path_under_def)

lemma kept_frame:
  "\<not> path_under d p \<Longrightarrow> map_of (filter (\<lambda>(q, n). kept env d q) f) p = map_of f p"
  by (simp add: map_of_filter_key kept_def)

lemma kept_stays:
  "fault env (Rmtree d) \<noteq> None \<Longrightarrow> map_of (filter (\<lambda>(q, n). kept env d q) f) d = map_of f d"
  by (simp add: map_of_filter_key kept_def)

lemma collect_results_nonempty:
  assumes "mesh_list (fs w) out \<noteq> []"
  shows "\<exists>st l w'. collect_results env lo out feat mc pca w
             = (Inr (st, map str_path (mesh_list (fs w) out), pca, l), w')
           \<and> fs w' = (if path_is_dir (fs w) feat
                      then filter (\<lambda>(q, n). kept env feat q) (fs w) else fs w)
           \<and> trace w' = trace w @ Ev_clear_gpu
                          # (if path_exists (fs w) feat then [Ev_rmtree feat] else [])"
proof (cases "path_is_dir (fs w) feat")
  case True
  then have d: "path_is_dir (fs (clear_gpu_memory w)) feat"
    by (simp add: clear_gpu_memory_def)
  have ex: "path_exists (fs w) feat"
    using True by (auto simp: path_is_dir_def path_exists_def split: option.splits)
  obtain r w' where rm: "rmtree env feat (clear_gpu_memory w) = (r, w')"
    and f: "fs w' = filter (\<lambda>(q, n). kept env feat q) (fs (clear_gpu_memory w))"
    using rmtree_dir [OF d] by blast
  have t: "trace w' = trace (clear_gpu_memory w) @ [Ev_rmtree feat]"
    using rm by (rule rmtree_trace)
  show ?thesis
    using assms True ex rm f t
    by (simp add: collect_results_def Let_def clear_gpu_memory_def rmtree_ignore_errors_def)
next
  case False
  then show ?thesis
    using assms
    by (simp add: collect_results_def Let_def clear_gpu_memory_def rmtree_ignore_errors_def
        rmtree_def)
qed

lemma harvest_run:
  assumes "step1_world env file_path jobs_dir w = Some w3"
    and "popen env (spawned w) = Process lines1 None 0 eff1 dt1"
    and "popen env (Suc (spawned w)) = Process lines2 None 0 eff2 dt2"
    and "mesh_list (eff2 (eff1 (fs w3))) (job_output_dir env jobs_dir) \<noteq> []"
  shows "\<exists>st pca l w'. process_3d_file env file_path ipc mc ua pm ao knn ppf jobs_dir w
           = (Inr (st, map str_path (mesh_list (eff2 (eff1 (fs w3))) (job_output_dir env jobs_dir)),
                   pca, l), w')
           \<and> fs w' = (if path_is_dir (eff2 (eff1 (fs w3))) (job_features_dir env (fs w3))
                      then filter (\<lambda>(q, n). kept env (job_features_dir env (fs w3)) q)
                             (eff2 (eff1 (fs w3)))
                      else eff2 (eff1 (fs w3)))
           \<and> (path_exists (eff2 (eff1 (fs w3))) (job_features_dir env (fs w3))
                \<longrightarrow> Ev_rmtree (job_features_dir env (fs w3)) \<in> set (trace w'))"
proof -
  obtain lo pca cmd1 cmd2 w5 where
    e: "process_3d_file env file_path ipc mc ua pm ao knn ppf jobs_dir w
         = collect_results env lo (job_output_dir env jobs_dir) (job_features_dir env (fs w3))
             mc pca w5"
    and f: "fs w5 = eff2 (eff1 (fs w3))"
    using process_to_step3 [OF assms(1,2,3)] by blast
  have ne: "mesh_list (fs w5) (job_output_dir env jobs_dir) \<noteq> []" using assms(4) f by simp
  obtain st l w' where
    c: "collect_results env lo (job_output_dir env jobs_dir) (job_features_dir env (fs w3))
             mc pca w5
          = (Inr (st, map str_path (mesh_list (fs w5) (job_output_dir env jobs_dir)), pca, l), w')"
    and g: "fs w' = (if path_is_dir (fs w5) (job_features_dir env (fs w3))
                      then filter (\<lambda>(q, n). kept env (job_features_dir env (fs w3)) q) (fs w5)
                      else fs w5)"
    and t: "trace w' = trace w5 @ Ev_clear_gpu
              # (if path_exists (fs w5) (job_features_dir env (fs w3))
                 then [Ev_rmtree (job_features_dir env (fs w3))] else [])"
    using collect_results_nonempty [OF ne] by blast
  have t': "path_exists (eff2 (eff1 (fs w3))) (job_features_dir env (fs w3))
                \<longrightarrow> Ev_rmtree (job_features_dir env (fs w3)) \<in> set (trace w')"
    using t f by simp
  show ?thesis using e c g t' unfolding f by metis
qed

lemma two_stage_ready:
  "\<exists>w3. step1_world (two_stage_env eff2) ''/tmp/chair.obj'' ''/jobs'' job_world = Some w3
        \<and> fs w3 = ready_fs"
  by (simp add: world_eval path_eval two_stage_env_def env0_def job_world_def job_fs_def
      ready_fs_def upt_rec)

lemma locked_ready:
  "\<exists>w3. step1_world locked_env ''/tmp/chair.obj'' ''/jobs'' job_world = Some w3
        \<and> fs w3 = ready_fs"
  by (simp add: world_eval path_eval locked_env_def two_stage_env_def env0_def job_world_def
      job_fs_def ready_fs_def harvest_feat_def upt_rec)

lemma job_dirs:
  "job_output_dir (two_stage_env eff2) ''/jobs'' = harvest_out"
  "job_features_dir (two_stage_env eff2) ready_fs = harvest_feat"
  "job_output_dir locked_env ''/jobs'' = harvest_out"
  "job_features_dir locked_env ready_fs = harvest_feat"
  by (simp_all add: job_output_dir_def job_features_dir_def get_partfield_dir_def path_eval
      two_stage_env_def locked_env_def env0_def harvest_out_def harvest_feat_def ready_fs_def
      job_fs_def)

lemma two_stage_popen:
  "popen (two_stage_env eff2) (spawned job_world)
     = Process [''features written'' @ nl] None 0 stage1_effect 60"
  "popen (two_stage_env eff2) (Suc (spawned job_world))
     = Process [''clusters written'' @ nl] None 0 eff2 30"
  "popen locked_env (spawned job_world)
     = Process [''features written'' @ nl] None 0 stage1_effect 60"
  "popen locked_env (Suc (spawned job_world))
     = Process [''clusters written'' @ nl] None 0 mesh_effect 30"
  by (simp_all add: two_stage_env_def locked_env_def env0_def job_world_def)

lemmas run_eval = ready_fs_def job_fs_def stage1_effect_def empty_effect_def mesh_effect_def
  harvest_out_def harvest_feat_def

lemma empty_run_globbed: "globbed (empty_effect (stage1_effect ready_fs)) harvest_out = []"
  by (simp add: globbed_def glob_suffix_def iterdir_def is_entry_name_def endswith_def run_eval
      path_eval)

lemma mesh_run_list:
  "mesh_list (mesh_effect (stage1_effect ready_fs)) harvest_out
     = [harvest_out @ [''ply'', ''chair_0_2.ply''], harvest_out @ [''ply'', ''chair_0_2.obj''],
        harvest_out @ [''ply'', ''chair_0_3.ply'']]"
  by (simp add: mesh_list_def globbed_def glob_suffix_def iterdir_def is_entry_name_def
      endswith_def run_eval path_eval get_cluster_count_def py_int_def strip_def is_space_def
      digit_val_def)

subsection \<open>The order of the harvest\<close>

lemma process_3d_file_artifacts:
  assumes "step1_world env file_path jobs_dir w = Some w3"
    and "popen env (spawned w) = Process lines1 None 0 eff1 dt1"
    and "popen env (Suc (spawned w)) = Process lines2 None 0 eff2 dt2"
  shows "artifacts_of (fst (process_3d_file env file_path ipc mc ua pm ao knn ppf jobs_dir w))
           = Some (map str_path (mesh_list (eff2 (eff1 (fs w3))) (job_output_dir env jobs_dir)))"
proof -
  obtain lo pca cmd1 cmd2 w5 where
    e: "process_3d_file env file_path ipc mc ua pm ao knn ppf jobs_dir w
         = collect_results env lo (job_output_dir env jobs_dir) (job_features_dir env (fs w3))
             mc pca w5"
    and f: "fs w5 = eff2 (eff1 (fs w3))"
    using process_to_step3 [OF assms(1,2,3)] by blast
  obtain st files pca' l w' where
    c: "collect_results env lo (job_output_dir env jobs_dir) (job_features_dir env (fs w3))
          mc pca w5 = (Inr (st, files, pca', l), w')"
    using collect_results_returns by blast
  have "files = map str_path (mesh_list (fs w5) (job_output_dir env jobs_dir))"
    using c by (rule collect_results_files)
  then show ?thesis unfolding e c f by (simp add: artifacts_of_def)
qed

text \<open>
  Claim C5. The list that step 3 sorts is in ascending order of \<^verbatim>\<open>get_cluster_count\<close>, and
  the sort is stable: the paths of any one key keep the order in which \<^verbatim>\<open>glob\<close> listed
  them. The key of a path is the integer parsed from the last piece of its stem split at
  underscores, and 0 when that piece does not parse (the function has no other outcome).
  The artifact list that step 3 returns is this sorted list, each path as a string. For a
  job that reaches step 1 and whose two subprocesses run and exit with status 0, the
  artifact list that \<^verbatim>\<open>process_3d_file\<close> returns is the sorted list of the output directory
  of the job, as the file system is when the second subprocess has ended.
\<close>

theorem harvest_sorted_stable:
  "sorted (map get_cluster_count (mesh_list f output_dir))
   \<and> filter (\<lambda>p. get_cluster_count p = k) (mesh_list f output_dir)
       = filter (\<lambda>p. get_cluster_count p = k) (globbed f output_dir)
   \<and> get_cluster_count p
       = (case py_int (last (split_on CHR ''_'' (path_stem p))) of Some n \<Rightarrow> n | None \<Rightarrow> 0)
   \<and> (\<forall>st files pca' l w'.
         collect_results env lo out feat mc pca w = (Inr (st, files, pca', l), w') \<longrightarrow>
         files = map str_path (mesh_list (fs w) out))
   \<and> (\<forall>w3 lines1 eff1 dt1 lines2 eff2 dt2.
         step1_world env file_path jobs_dir v = Some w3 \<longrightarrow>
         popen env (spawned v) = Process lines1 None 0 eff1 dt1 \<longrightarrow>
         popen env (Suc (spawned v)) = Process lines2 None 0 eff2 dt2 \<longrightarrow>
         artifacts_of (fst (process_3d_file env file_path ipc mc' ua pm ao knn ppf jobs_dir v))
           = Some (map str_path
                     (mesh_list (eff2 (eff1 (fs w3))) (job_output_dir env jobs_dir))))"
proof -
  have a: "sorted (map get_cluster_count (mesh_list f output_dir))"
    by (simp add: mesh_list_def sort_key_stable)
  have b: "filter (\<lambda>p. get_cluster_count p = k) (mesh_list f output_dir)
             = filter (\<lambda>p. get_cluster_count p = k) (globbed f output_dir)"
    by (simp add: mesh_list_def sort_key_stable)
  have c: "get_cluster_count p
       = (case py_int (last (split_on CHR ''_'' (path_stem p))) of Some n \<Rightarrow> n | None \<Rightarrow> 0)"
    by (rule get_cluster_count_eq)
  have d: "\<forall>st files pca' l w'.
         collect_results env lo out feat mc pca w = (Inr (st, files, pca', l), w') \<longrightarrow>
         files = map str_path (mesh_list (fs w) out)"
    using collect_results_files by blast
  have e: "\<forall>w3 lines1 eff1 dt1 lines2 eff2 dt2.
         step1_world env file_path jobs_dir v = Some w3 \<longrightarrow>
         popen env (spawned v) = Process lines1 None 0 eff1 dt1 \<longrightarrow>
         popen env (Suc (spawned v)) = Process lines2 None 0 eff2 dt2 \<longrightarrow>
         artifacts_of (fst (process_3d_file env file_path ipc mc' ua pm ao knn ppf jobs_dir v))
           = Some (map str_path
                     (mesh_list (eff2 (eff1 (fs w3))) (job_output_dir env jobs_dir)))"
    by (intro allI impI) (rule process_3d_file_artifacts)
  show ?thesis using a b c d e by (intro conjI)
qed

theorem harvest_sorted_stable_witness:
  "map get_cluster_count (mesh_list harvest_fs harvest_out) = [0, 2, 2, 5, 10]
   \<and> sorted (map get_cluster_count (mesh_list harvest_fs harvest_out))
   \<and> filter (\<lambda>p. get_cluster_count p = 2) (mesh_list harvest_fs harvest_out)
       = [harvest_out @ [''ply'', ''x_0_2.ply''], harvest_out @ [''ply'', ''x_0_2.obj'']]
   \<and> get_cluster_count (harvest_out @ [''ply'', ''notes.ply'']) = 0
   \<and> get_cluster_count (harvest_out @ [''ply'', ''x_0_7'' @ [CHR 0x1F] @ ''.ply'']) = 0
   \<and> get_cluster_count (harvest_out @ [''ply'', ''x_0_ 7.ply'']) = 7
   \<and> (\<exists>st pca' l w'.
         collect_results env0 [] harvest_out harvest_feat 20 None harvest_world
           = (Inr (st, [''/jobs/1a2b3c4d/output/ply/notes.ply'',
                        ''/jobs/1a2b3c4d/output/ply/x_0_2.ply'',
                        ''/jobs/1a2b3c4d/output/ply/x_0_2.obj'',
                        ''/jobs/1a2b3c4d/output/ply/x_0_5.ply'',
                        ''/jobs/1a2b3c4d/output/ply/x_0_10.ply''], pca', l), w'))
   \<and> artifacts_of (fst (process_3d_file (two_stage_env mesh_effect) ''/tmp/chair.obj'' False 20
                          True False 1 False 1000 ''/jobs'' job_world))
       = Some [''/jobs/1a2b3c4d/output/ply/chair_0_2.ply'',
               ''/jobs/1a2b3c4d/output/ply/chair_0_2.obj'',
               ''/jobs/1a2b3c4d/output/ply/chair_0_3.ply'']"
proof -
  note T = harvest_sorted_stable [of harvest_fs harvest_out 2
      "harvest_out @ [''ply'', ''notes.ply'']" env0 "[]" harvest_out harvest_feat 20 None
      harvest_world]
  have k: "map get_cluster_count (mesh_list harvest_fs harvest_out) = [0, 2, 2, 5, 10]"
    unfolding harvest_mesh_list by (simp add: harvest_keys)
  have s: "sorted (map get_cluster_count (mesh_list harvest_fs harvest_out))"
    by (rule T [THEN conjunct1])
  have f: "filter (\<lambda>p. get_cluster_count p = 2) (mesh_list harvest_fs harvest_out)
       = [harvest_out @ [''ply'', ''x_0_2.ply''], harvest_out @ [''ply'', ''x_0_2.obj'']]"
  proof -
    have "filter (\<lambda>p. get_cluster_count p = 2) (mesh_list harvest_fs harvest_out)
       = filter (\<lambda>p. get_cluster_count p = 2) (globbed harvest_fs harvest_out)"
      by (rule T [THEN conjunct2, THEN conjunct1])
    then show ?thesis unfolding harvest_globbed by (simp add: harvest_keys)
  qed
  have n: "get_cluster_count (harvest_out @ [''ply'', ''notes.ply'']) = 0"
    by (simp add: harvest_keys)
  have n2: "get_cluster_count (harvest_out @ [''ply'', ''x_0_7'' @ [CHR 0x1F] @ ''.ply'']) = 0"
    "get_cluster_count (harvest_out @ [''ply'', ''x_0_ 7.ply'']) = 7"
    by (simp_all add: harvest_eval path_eval)
  obtain st files pca' l w' where
    c: "collect_results env0 [] harvest_out harvest_feat 20 None harvest_world
          = (Inr (st, files, pca', l), w')"
    using collect_results_returns by blast
  have "files = map str_path (mesh_list (fs harvest_world) harvest_out)"
    by (rule T [THEN conjunct2, THEN conjunct2, THEN conjunct2, THEN conjunct1, rule_format,
          OF c])
  then have fl: "files = [''/jobs/1a2b3c4d/output/ply/notes.ply'',
                        ''/jobs/1a2b3c4d/output/ply/x_0_2.ply'',
                        ''/jobs/1a2b3c4d/output/ply/x_0_2.obj'',
                        ''/jobs/1a2b3c4d/output/ply/x_0_5.ply'',
                        ''/jobs/1a2b3c4d/output/ply/x_0_10.ply'']"
    using harvest_mesh_list by (simp add: harvest_world_def harvest_out_def str_path_def)
  have cr: "\<exists>st pca' l w'.
         collect_results env0 [] harvest_out harvest_feat 20 None harvest_world
           = (Inr (st, [''/jobs/1a2b3c4d/output/ply/notes.ply'',
                        ''/jobs/1a2b3c4d/output/ply/x_0_2.ply'',
                        ''/jobs/1a2b3c4d/output/ply/x_0_2.obj'',
                        ''/jobs/1a2b3c4d/output/ply/x_0_5.ply'',
                        ''/jobs/1a2b3c4d/output/ply/x_0_10.ply''], pca', l), w')"
    using c unfolding fl by blast
  obtain w3 where r: "step1_world (two_stage_env mesh_effect) ''/tmp/chair.obj'' ''/jobs''
      job_world = Some w3" and g: "fs w3 = ready_fs"
    using two_stage_ready by blast
  note U = harvest_sorted_stable [where env = "two_stage_env mesh_effect"
      and file_path = "''/tmp/chair.obj''" and jobs_dir = "''/jobs''" and v = job_world
      and ipc = False and mc' = 20 and ua = True and pm = False and ao = 1 and knn = False
      and ppf = 1000]
  have "artifacts_of (fst (process_3d_file (two_stage_env mesh_effect) ''/tmp/chair.obj'' False
          20 True False 1 False 1000 ''/jobs'' job_world))
        = Some (map str_path (mesh_list (mesh_effect (stage1_effect (fs w3)))
                  (job_output_dir (two_stage_env mesh_effect) ''/jobs'')))"
    by (rule U [THEN conjunct2, THEN conjunct2, THEN conjunct2, THEN conjunct2, rule_format,
          OF r two_stage_popen(1) two_stage_popen(2)])
  then have ar: "artifacts_of (fst (process_3d_file (two_stage_env mesh_effect)
          ''/tmp/chair.obj'' False 20 True False 1 False 1000 ''/jobs'' job_world))
       = Some [''/jobs/1a2b3c4d/output/ply/chair_0_2.ply'',
               ''/jobs/1a2b3c4d/output/ply/chair_0_2.obj'',
               ''/jobs/1a2b3c4d/output/ply/chair_0_3.ply'']"
    unfolding g job_dirs mesh_run_list by (simp add: str_path_def harvest_out_def)
  show ?thesis using k s f n n2 cr ar by (intro conjI)
qed

subsection \<open>An empty harvest\<close>

text \<open>
  Claim C6. Take a job that reaches step 1 and whose two subprocesses run and exit with
  status 0. If, in the file system that the second one leaves, the \<^verbatim>\<open>ply\<close> directory of the
  job's output does not exist, or holds no name ending in \<open>.ply\<close> and none ending in
  \<open>.obj\<close>, then \<^verbatim>\<open>process_3d_file\<close> returns the status \<open>Warning: No output files generated\<close>,
  which is not an error status, with an empty artifact list.
\<close>

theorem empty_harvest_is_warning:
  assumes "step1_world env file_path jobs_dir w = Some w3"
    and "popen env (spawned w) = Process lines1 None 0 eff1 dt1"
    and "popen env (Suc (spawned w)) = Process lines2 None 0 eff2 dt2"
    and "\<not> path_exists (eff2 (eff1 (fs w3))) (pjoin (job_output_dir env jobs_dir) ''ply'')
         \<or> (glob_suffix (eff2 (eff1 (fs w3))) (pjoin (job_output_dir env jobs_dir) ''ply'') ''.ply'' = []
            \<and> glob_suffix (eff2 (eff1 (fs w3))) (pjoin (job_output_dir env jobs_dir) ''ply'') ''.obj'' = [])"
  shows "\<exists>pca l w'. process_3d_file env file_path is_point_cloud max_clusters use_agglomerative
                  preprocess_mesh adjacency_option add_knn_edges points_per_face jobs_dir w
           = (Inr (''Warning: No output files generated'', [], pca, l), w')"
proof -
  have "globbed (eff2 (eff1 (fs w3))) (job_output_dir env jobs_dir) = []"
    using assms(4) by (auto simp: globbed_def Let_def)
  then show ?thesis using empty_harvest_run [OF assms(1,2,3)] by blast
qed

theorem empty_harvest_is_warning_witness:
  "returncode (popen (two_stage_env empty_effect) 0) = 0
   \<and> returncode (popen (two_stage_env empty_effect) 1) = 0
   \<and> (\<exists>pca l w'. process_3d_file (two_stage_env empty_effect) ''/tmp/chair.obj'' False 20 True
                   False 1 False 1000 ''/jobs'' job_world
                 = (Inr (''Warning: No output files generated'', [], pca, l), w'))"
proof -
  obtain w3 where r: "step1_world (two_stage_env empty_effect) ''/tmp/chair.obj'' ''/jobs''
      job_world = Some w3" and f: "fs w3 = ready_fs"
    using two_stage_ready by blast
  have g: "glob_suffix (empty_effect (stage1_effect (fs w3)))
             (pjoin (job_output_dir (two_stage_env empty_effect) ''/jobs'') ''ply'') ''.ply'' = []
         \<and> glob_suffix (empty_effect (stage1_effect (fs w3)))
             (pjoin (job_output_dir (two_stage_env empty_effect) ''/jobs'') ''ply'') ''.obj'' = []"
    unfolding f job_dirs
    by (simp add: glob_suffix_def iterdir_def is_entry_name_def endswith_def run_eval
        path_eval)
  have rc: "returncode (popen (two_stage_env empty_effect) 0) = 0"
      "returncode (popen (two_stage_env empty_effect) 1) = 0"
    by (simp_all add: two_stage_env_def env0_def)
  show ?thesis
    using rc empty_harvest_is_warning [OF r two_stage_popen(1) two_stage_popen(2) disjI2 [OF g],
        of False 20 True False 1 False 1000]
    by simp
qed

subsection \<open>Removal of the features directory\<close>

text \<open>
  Claim C7, as the code has it. Take a job that reaches step 1, whose two subprocesses
  run and exit with status 0, and whose harvest finds at least one artifact. Then
  \<^verbatim>\<open>process_3d_file\<close> returns a non-empty artifact list; if the features path exists it
  has called \<^verbatim>\<open>rmtree\<close> on it before returning; if that removal is not refused and the
  features path is not a regular file (\<^verbatim>\<open>shutil.rmtree\<close> raises \<^verbatim>\<open>NotADirectoryError\<close> on
  one, which \<^verbatim>\<open>ignore_errors=True\<close> drops) the features path does not exist afterwards; if
  the features path is no directory the file system is what it was when the second
  subprocess ended; and in every case each path outside the features directory, so every
  artifact of the output tree, is what it was then.
\<close>

theorem features_removed_after_harvest:
  assumes "step1_world env file_path jobs_dir w = Some w3"
    and "popen env (spawned w) = Process lines1 None 0 eff1 dt1"
    and "popen env (Suc (spawned w)) = Process lines2 None 0 eff2 dt2"
    and "mesh_list (eff2 (eff1 (fs w3))) (job_output_dir env jobs_dir) \<noteq> []"
  shows "\<exists>st files pca l w'.
           process_3d_file env file_path is_point_cloud max_clusters use_agglomerative
             preprocess_mesh adjacency_option add_knn_edges points_per_face jobs_dir w
             = (Inr (st, files, pca, l), w')
           \<and> files \<noteq> []
           \<and> (path_exists (eff2 (eff1 (fs w3))) (job_features_dir env (fs w3))
                \<longrightarrow> Ev_rmtree (job_features_dir env (fs w3)) \<in> set (trace w'))
           \<and> (fault env (Rmtree (job_features_dir env (fs w3))) = None
                \<longrightarrow> (path_exists (eff2 (eff1 (fs w3))) (job_features_dir env (fs w3))
                      \<longrightarrow> path_is_dir (eff2 (eff1 (fs w3))) (job_features_dir env (fs w3)))
                \<longrightarrow> \<not> path_exists (fs w') (job_features_dir env (fs w3)))
           \<and> (\<not> path_is_dir (eff2 (eff1 (fs w3))) (job_features_dir env (fs w3))
                \<longrightarrow> fs w' = eff2 (eff1 (fs w3)))
           \<and> (\<forall>p. \<not> path_under (job_features_dir env (fs w3)) p
                \<longrightarrow> map_of (fs w') p = map_of (eff2 (eff1 (fs w3))) p)"
proof -
  let ?H = "eff2 (eff1 (fs w3))" and ?feat = "job_features_dir env (fs w3)"
  obtain st pca l w' where
    r: "process_3d_file env file_path is_point_cloud max_clusters use_agglomerative
             preprocess_mesh adjacency_option add_knn_edges points_per_face jobs_dir w
          = (Inr (st, map str_path (mesh_list ?H (job_output_dir env jobs_dir)), pca, l), w')"
    and g: "fs w' = (if path_is_dir ?H ?feat
                      then filter (\<lambda>(q, n). kept env ?feat q) ?H else ?H)"
    and t: "path_exists ?H ?feat \<longrightarrow> Ev_rmtree ?feat \<in> set (trace w')"
    using harvest_run [OF assms] by blast
  have ne: "map str_path (mesh_list ?H (job_output_dir env jobs_dir)) \<noteq> []"
    using assms(4) by simp
  have gone: "fault env (Rmtree ?feat) = None
                \<longrightarrow> (path_exists ?H ?feat \<longrightarrow> path_is_dir ?H ?feat)
                \<longrightarrow> \<not> path_exists (fs w') ?feat"
  proof (cases "path_is_dir ?H ?feat")
    case True
    then have "fs w' = filter (\<lambda>(q, n). kept env ?feat q) ?H" using g by simp
    then show ?thesis using kept_gone [of env ?feat ?H] by simp
  next
    case False
    then have "fs w' = ?H" using g by simp
    then show ?thesis using False by auto
  qed
  have same: "\<not> path_is_dir ?H ?feat \<longrightarrow> fs w' = ?H"
    using g by simp
  have frame: "\<forall>p. \<not> path_under ?feat p \<longrightarrow> map_of (fs w') p = map_of ?H p"
    using g kept_frame [of ?feat _ env ?H] by simp
  have all: "process_3d_file env file_path is_point_cloud max_clusters use_agglomerative
             preprocess_mesh adjacency_option add_knn_edges points_per_face jobs_dir w
             = (Inr (st, map str_path (mesh_list ?H (job_output_dir env jobs_dir)), pca, l), w')
           \<and> map str_path (mesh_list ?H (job_output_dir env jobs_dir)) \<noteq> []
           \<and> (path_exists ?H ?feat \<longrightarrow> Ev_rmtree ?feat \<in> set (trace w'))
           \<and> (fault env (Rmtree ?feat) = None
                \<longrightarrow> (path_exists ?H ?feat \<longrightarrow> path_is_dir ?H ?feat)
                \<longrightarrow> \<not> path_exists (fs w') ?feat)
           \<and> (\<not> path_is_dir ?H ?feat \<longrightarrow> fs w' = ?H)
           \<and> (\<forall>p. \<not> path_under ?feat p \<longrightarrow> map_of (fs w') p = map_of ?H p)"
    using r ne t gone same frame by simp
  show ?thesis by (intro exI, rule all)
qed

theorem features_removed_after_harvest_witness:
  "\<exists>st files pca l w'.
     process_3d_file (two_stage_env mesh_effect) ''/tmp/chair.obj'' False 20 True False 1 False
       1000 ''/jobs'' job_world = (Inr (st, files, pca, l), w')
     \<and> files \<noteq> []
     \<and> Ev_rmtree harvest_feat \<in> set (trace w')
     \<and> \<not> path_exists (fs w') harvest_feat
     \<and> map_of (fs w') (harvest_out @ [''ply'', ''chair_0_2.obj'']) = Some (Node False 5 3000)
     \<and> map_of (fs w') (harvest_out @ [''ply'', ''chair_0_3.ply'']) = Some (Node False 5 3000)"
proof -
  obtain w3 where r: "step1_world (two_stage_env mesh_effect) ''/tmp/chair.obj'' ''/jobs''
      job_world = Some w3" and f: "fs w3 = ready_fs"
    using two_stage_ready by blast
  have ne: "mesh_list (mesh_effect (stage1_effect (fs w3)))
              (job_output_dir (two_stage_env mesh_effect) ''/jobs'') \<noteq> []"
    unfolding f job_dirs mesh_run_list by simp
  have ex: "path_exists (mesh_effect (stage1_effect ready_fs)) harvest_feat"
      "path_is_dir (mesh_effect (stage1_effect ready_fs)) harvest_feat"
    by (simp_all add: path_exists_def path_is_dir_def run_eval)
  have nf: "fault (two_stage_env mesh_effect) (Rmtree harvest_feat) = None"
    by (simp add: two_stage_env_def env0_def)
  have out: "\<not> path_under harvest_feat (harvest_out @ [''ply'', ''chair_0_2.obj''])"
      "\<not> path_under harvest_feat (harvest_out @ [''ply'', ''chair_0_3.ply''])"
    by (simp_all add: path_under_def harvest_feat_def harvest_out_def)
  have m: "map_of (mesh_effect (stage1_effect ready_fs)) (harvest_out @ [''ply'', ''chair_0_2.obj''])
             = Some (Node False 5 3000)"
      "map_of (mesh_effect (stage1_effect ready_fs)) (harvest_out @ [''ply'', ''chair_0_3.ply''])
             = Some (Node False 5 3000)"
    by (simp_all add: run_eval)
  show ?thesis
    using features_removed_after_harvest [OF r two_stage_popen(1) two_stage_popen(2) ne,
        of False 20 True False 1 False 1000] ex nf out m
    unfolding f job_dirs by metis
qed

text \<open>
  The claim as it was stated fails: with both subprocesses exiting with status 0, the
  run with an empty harvest returns the warning and leaves the features directory in
  place, and so does the run with three artifacts whose removal of the features directory
  is refused (\<^verbatim>\<open>ignore_errors=True\<close>).
\<close>

theorem features_kept_counterexample:
  "returncode (popen (two_stage_env empty_effect) 0) = 0
   \<and> returncode (popen (two_stage_env empty_effect) 1) = 0
   \<and> status_of (fst (process_3d_file (two_stage_env empty_effect) ''/tmp/chair.obj'' False 20
                       True False 1 False 1000 ''/jobs'' job_world))
       = Some ''Warning: No output files generated''
   \<and> path_exists (fs (snd (process_3d_file (two_stage_env empty_effect) ''/tmp/chair.obj''
                              False 20 True False 1 False 1000 ''/jobs'' job_world)))
        harvest_feat
   \<and> returncode (popen locked_env 0) = 0
   \<and> returncode (popen locked_env 1) = 0
   \<and> artifacts_of (fst (process_3d_file locked_env ''/tmp/chair.obj'' False 20 True False 1
                          False 1000 ''/jobs'' job_world))
       = Some [''/jobs/1a2b3c4d/output/ply/chair_0_2.ply'',
               ''/jobs/1a2b3c4d/output/ply/chair_0_2.obj'',
               ''/jobs/1a2b3c4d/output/ply/chair_0_3.ply'']
   \<and> path_exists (fs (snd (process_3d_file locked_env ''/tmp/chair.obj'' False 20 True False 1
                              False 1000 ''/jobs'' job_world)))
        harvest_feat"
proof -
  obtain w3 where r: "step1_world (two_stage_env empty_effect) ''/tmp/chair.obj'' ''/jobs''
      job_world = Some w3" and f: "fs w3 = ready_fs"
    using two_stage_ready by blast
  have g: "globbed (empty_effect (stage1_effect (fs w3)))
             (job_output_dir (two_stage_env empty_effect) ''/jobs'') = []"
    unfolding f job_dirs by (rule empty_run_globbed)
  obtain pca l w' where
    e: "process_3d_file (two_stage_env empty_effect) ''/tmp/chair.obj'' False 20 True False 1
          False 1000 ''/jobs'' job_world
        = (Inr (''Warning: No output files generated'', [], pca, l), w')"
    and ew: "fs w' = empty_effect (stage1_effect (fs w3))"
    using empty_harvest_run [OF r two_stage_popen(1) two_stage_popen(2) g] by blast
  have e1: "status_of (fst (process_3d_file (two_stage_env empty_effect) ''/tmp/chair.obj''
              False 20 True False 1 False 1000 ''/jobs'' job_world))
            = Some ''Warning: No output files generated''"
    unfolding e by (simp add: status_of_def)
  have e2: "path_exists (fs (snd (process_3d_file (two_stage_env empty_effect)
              ''/tmp/chair.obj'' False 20 True False 1 False 1000 ''/jobs'' job_world)))
              harvest_feat"
    unfolding e by (simp add: ew f path_exists_def run_eval)
  obtain v3 where r': "step1_world locked_env ''/tmp/chair.obj'' ''/jobs'' job_world = Some v3"
    and f': "fs v3 = ready_fs"
    using locked_ready by blast
  have ne: "mesh_list (mesh_effect (stage1_effect (fs v3))) (job_output_dir locked_env ''/jobs'')
              \<noteq> []"
    unfolding f' job_dirs mesh_run_list by simp
  obtain st pca' l' v' where
    h: "process_3d_file locked_env ''/tmp/chair.obj'' False 20 True False 1 False 1000 ''/jobs''
          job_world
        = (Inr (st, map str_path (mesh_list (mesh_effect (stage1_effect (fs v3)))
                                   (job_output_dir locked_env ''/jobs'')), pca', l'), v')"
    and hw: "fs v' = (if path_is_dir (mesh_effect (stage1_effect (fs v3)))
                           (job_features_dir locked_env (fs v3))
                      then filter (\<lambda>(q, n). kept locked_env
                                                (job_features_dir locked_env (fs v3)) q)
                             (mesh_effect (stage1_effect (fs v3)))
                      else mesh_effect (stage1_effect (fs v3)))"
    using harvest_run [OF r' two_stage_popen(3) two_stage_popen(4) ne] by blast
  have lk: "fault locked_env (Rmtree harvest_feat) \<noteq> None"
    by (simp add: locked_env_def)
  have h1: "artifacts_of (fst (process_3d_file locked_env ''/tmp/chair.obj'' False 20 True
              False 1 False 1000 ''/jobs'' job_world))
            = Some [''/jobs/1a2b3c4d/output/ply/chair_0_2.ply'',
                    ''/jobs/1a2b3c4d/output/ply/chair_0_2.obj'',
                    ''/jobs/1a2b3c4d/output/ply/chair_0_3.ply'']"
    unfolding h f' job_dirs mesh_run_list
    by (simp add: artifacts_of_def str_path_def harvest_out_def)
  have h2: "path_exists (fs (snd (process_3d_file locked_env ''/tmp/chair.obj'' False 20 True
              False 1 False 1000 ''/jobs'' job_world))) harvest_feat"
  proof -
    have hv: "map_of (fs v') harvest_feat
                = map_of (mesh_effect (stage1_effect ready_fs)) harvest_feat"
    proof (cases "path_is_dir (mesh_effect (stage1_effect ready_fs)) harvest_feat")
      case True
      have e: "fs v' = filter (\<lambda>(q, n). kept locked_env harvest_feat q)
                         (mesh_effect (stage1_effect ready_fs))"
        using hw True unfolding f' job_dirs by (simp only: if_True)
      show ?thesis unfolding e by (rule kept_stays [OF lk])
    next
      case False
      have e: "fs v' = mesh_effect (stage1_effect ready_fs)"
        using hw False unfolding f' job_dirs by (simp only: if_False)
      show ?thesis unfolding e by (rule refl)
    qed
    have "path_exists (fs v') harvest_feat
            = path_exists (mesh_effect (stage1_effect ready_fs)) harvest_feat"
      by (simp only: path_exists_def hv)
    moreover have "path_exists (mesh_effect (stage1_effect ready_fs)) harvest_feat"
      by (simp add: path_exists_def run_eval)
    ultimately show ?thesis unfolding h by simp
  qed
  have rc: "returncode (popen (two_stage_env empty_effect) 0) = 0"
      "returncode (popen (two_stage_env empty_effect) 1) = 0"
      "returncode (popen locked_env 0) = 0" "returncode (popen locked_env 1) = 0"
    by (simp_all add: two_stage_env_def locked_env_def env0_def)
  show ?thesis using rc e1 e2 h1 h2 by blast
qed

text \<open>
  A features path that is a regular file when the harvest starts stays in place although
  the removal is not refused: \<^verbatim>\<open>shutil.rmtree\<close> raises \<^verbatim>\<open>NotADirectoryError\<close> on it, which
  \<^verbatim>\<open>ignore_errors=True\<close> drops.
\<close>

lemma spoil_run_list:
  "mesh_list (spoil_effect (stage1_effect ready_fs)) harvest_out
     = [harvest_out @ [''ply'', ''chair_0_2.ply''], harvest_out @ [''ply'', ''chair_0_2.obj''],
        harvest_out @ [''ply'', ''chair_0_3.ply'']]"
  by (simp add: mesh_list_def globbed_def glob_suffix_def iterdir_def is_entry_name_def
      endswith_def run_eval path_eval get_cluster_count_def py_int_def strip_def is_space_def
      digit_val_def spoil_effect_def remove_tree_def path_under_def)

lemma features_file_kept:
  "fault (two_stage_env spoil_effect) (Rmtree harvest_feat) = None
   \<and> artifacts_of (fst (process_3d_file (two_stage_env spoil_effect) ''/tmp/chair.obj'' False 20
                          True False 1 False 1000 ''/jobs'' job_world)) = Some chair_files
   \<and> map_of (fs (snd (process_3d_file (two_stage_env spoil_effect) ''/tmp/chair.obj'' False 20
                         True False 1 False 1000 ''/jobs'' job_world))) harvest_feat
       = Some (Node False 1 3000)"
proof -
  obtain w3 where r: "step1_world (two_stage_env spoil_effect) ''/tmp/chair.obj'' ''/jobs''
      job_world = Some w3" and f: "fs w3 = ready_fs"
    using two_stage_ready by blast
  have ne: "mesh_list (spoil_effect (stage1_effect (fs w3)))
              (job_output_dir (two_stage_env spoil_effect) ''/jobs'') \<noteq> []"
    unfolding f job_dirs spoil_run_list by simp
  have fl: "map str_path (mesh_list (spoil_effect (stage1_effect (fs w3)))
              (job_output_dir (two_stage_env spoil_effect) ''/jobs'')) = chair_files"
    unfolding f job_dirs spoil_run_list
    by (simp add: chair_files_def str_path_def harvest_out_def)
  have m: "map_of (spoil_effect (stage1_effect ready_fs)) harvest_feat = Some (Node False 1 3000)"
    by (simp add: spoil_effect_def remove_tree_def path_under_def run_eval)
  then have nd: "\<not> path_is_dir (spoil_effect (stage1_effect ready_fs)) harvest_feat"
    by (simp only: path_is_dir_def) simp
  obtain st pca l w' where
    h: "process_3d_file (two_stage_env spoil_effect) ''/tmp/chair.obj'' False 20 True False 1
          False 1000 ''/jobs'' job_world = (Inr (st, chair_files, pca, l), w')"
    and hw: "fs w' = (if path_is_dir (spoil_effect (stage1_effect (fs w3)))
                           (job_features_dir (two_stage_env spoil_effect) (fs w3))
                      then filter (\<lambda>(q, n). kept (two_stage_env spoil_effect)
                                     (job_features_dir (two_stage_env spoil_effect) (fs w3)) q)
                             (spoil_effect (stage1_effect (fs w3)))
                      else spoil_effect (stage1_effect (fs w3)))"
    using harvest_run [OF r two_stage_popen(1) two_stage_popen(2) ne] unfolding fl by blast
  have e: "fs w' = spoil_effect (stage1_effect ready_fs)"
    using hw nd unfolding f job_dirs by (simp only: if_False)
  have a: "artifacts_of (fst (process_3d_file (two_stage_env spoil_effect) ''/tmp/chair.obj''
             False 20 True False 1 False 1000 ''/jobs'' job_world)) = Some chair_files"
    unfolding h by (simp add: artifacts_of_def)
  have b: "map_of (fs (snd (process_3d_file (two_stage_env spoil_effect) ''/tmp/chair.obj''
             False 20 True False 1 False 1000 ''/jobs'' job_world))) harvest_feat
           = Some (Node False 1 3000)"
    unfolding h using m by (simp only: snd_conv e)
  have nf: "fault (two_stage_env spoil_effect) (Rmtree harvest_feat) = None"
    by (simp add: two_stage_env_def env0_def)
  show ?thesis using nf a b by (intro conjI)
qed

subsection \<open>Labels of the artifacts\<close>

lemma on_process_loop_choices:
  "fst (on_process_loop xs (cs, m)) = cs @ map result_label xs"
  by (induction xs arbitrary: cs m) simp_all

lemma on_process_loop_map:
  "snd (on_process_loop xs (cs, m)) = m ++ map_of (rev (map (\<lambda>p. (result_label p, p)) xs))"
proof (induction xs arbitrary: cs m)
  case Nil
  then show ?case by simp
next
  case (Cons x xs)
  have "snd (on_process_loop (x # xs) (cs, m))
          = snd (on_process_loop xs (cs @ [result_label x], m(result_label x \<mapsto> x)))"
    by simp
  also have "\<dots> = m(result_label x \<mapsto> x) ++ map_of (rev (map (\<lambda>p. (result_label p, p)) xs))"
    by (rule Cons.IH)
  also have "\<dots> = m ++ map_of (rev (map (\<lambda>p. (result_label p, p)) (x # xs)))"
    by (simp add: map_add_def fun_eq_iff split: option.splits)
  finally show ?case .
qed

lemma map_of_rev_last:
  "map_of (rev (map (\<lambda>p. (g p, p)) xs)) k
     = (if filter (\<lambda>x. g x = k) xs = [] then None else Some (last (filter (\<lambda>x. g x = k) xs)))"
  by (induction xs) (auto simp: map_add_def split: option.splits)

lemma on_process_loop_last:
  "snd (on_process_loop xs ([], Map.empty)) k
     = (if filter (\<lambda>x. result_label x = k) xs = [] then None
        else Some (last (filter (\<lambda>x. result_label x = k) xs)))"
  by (simp add: on_process_loop_map map_of_rev_last)

lemma result_label_last:
  "last (result_label p) = (if lower (path_suffix (Path p)) = ''.obj'' then CHR '')'' else CHR ''s'')"
  by (simp add: result_label_def Let_def)

lemma result_label_forms:
  "lower (path_suffix (Path p)) = ''.obj'' \<Longrightarrow>
     result_label p = last (split_on CHR ''_'' (path_stem (Path p))) @ '' parts (UV)''"
  "lower (path_suffix (Path p)) \<noteq> ''.obj'' \<Longrightarrow>
     result_label p = last (split_on CHR ''_'' (path_stem (Path p))) @ '' parts''"
  by (simp_all add: result_label_def Let_def)

text \<open>
  Claim C9, as the code has it. When two harvested artifacts have the same part count and
  one is an \<^verbatim>\<open>.obj\<close> file while the other is not, the handler gives them different labels:
  the last piece of the stem followed by \<open>parts\<close> for the one and by \<open>parts (UV)\<close> for the
  \<^verbatim>\<open>.obj\<close> file. The choices of the dropdown are the labels of the harvested paths in
  harvest order, so both labels are among them. The mapping sends each of the two labels to
  the last harvested path that has this label, which is not an \<^verbatim>\<open>.obj\<close> file for the first
  label and is one for the second: an \<^verbatim>\<open>.obj\<close> file never replaces a file of the other
  format. An artifact whose label no other harvested path has is itself the value of its
  label; one that shares its label with a later path (two \<^verbatim>\<open>.ply\<close> files whose stems end in
  the same piece) is replaced by that path.
\<close>

theorem both_formats_surfaced:
  assumes "p \<in> set mesh_files" and "q \<in> set mesh_files"
    and "get_cluster_count (Path p) = get_cluster_count (Path q)"
    and "lower (path_suffix (Path p)) \<noteq> ''.obj''"
    and "lower (path_suffix (Path q)) = ''.obj''"
  shows "result_label p = last (split_on CHR ''_'' (path_stem (Path p))) @ '' parts''
       \<and> result_label q = last (split_on CHR ''_'' (path_stem (Path q))) @ '' parts (UV)''
       \<and> result_label p \<noteq> result_label q
       \<and> fst (on_process_loop mesh_files ([], Map.empty)) = map result_label mesh_files
       \<and> result_label p \<in> set (fst (on_process_loop mesh_files ([], Map.empty)))
       \<and> result_label q \<in> set (fst (on_process_loop mesh_files ([], Map.empty)))
       \<and> snd (on_process_loop mesh_files ([], Map.empty)) (result_label p)
           = Some (last (filter (\<lambda>x. result_label x = result_label p) mesh_files))
       \<and> snd (on_process_loop mesh_files ([], Map.empty)) (result_label q)
           = Some (last (filter (\<lambda>x. result_label x = result_label q) mesh_files))
       \<and> (\<exists>p'. snd (on_process_loop mesh_files ([], Map.empty)) (result_label p) = Some p'
              \<and> p' \<in> set mesh_files \<and> lower (path_suffix (Path p')) \<noteq> ''.obj'')
       \<and> (\<exists>q'. snd (on_process_loop mesh_files ([], Map.empty)) (result_label q) = Some q'
              \<and> q' \<in> set mesh_files \<and> lower (path_suffix (Path q')) = ''.obj'')
       \<and> ((\<forall>x\<in>set mesh_files. result_label x = result_label p \<longrightarrow> x = p)
            \<longrightarrow> snd (on_process_loop mesh_files ([], Map.empty)) (result_label p) = Some p)
       \<and> ((\<forall>x\<in>set mesh_files. result_label x = result_label q \<longrightarrow> x = q)
            \<longrightarrow> snd (on_process_loop mesh_files ([], Map.empty)) (result_label q) = Some q)"
proof -
  let ?L = "on_process_loop mesh_files ([], Map.empty)"
  let ?P = "filter (\<lambda>x. result_label x = result_label p) mesh_files"
  let ?Q = "filter (\<lambda>x. result_label x = result_label q) mesh_files"
  have lp: "result_label p = last (split_on CHR ''_'' (path_stem (Path p))) @ '' parts''"
    using assms(4) by (rule result_label_forms(2))
  have lq: "result_label q = last (split_on CHR ''_'' (path_stem (Path q))) @ '' parts (UV)''"
    using assms(5) by (rule result_label_forms(1))
  have ne: "result_label p \<noteq> result_label q"
  proof
    assume "result_label p = result_label q"
    then have "last (result_label p) = last (result_label q)" by simp
    then show False using assms(4,5) by (simp add: result_label_last)
  qed
  have cs: "fst ?L = map result_label mesh_files"
    by (simp add: on_process_loop_choices)
  have ch: "result_label p \<in> set (fst ?L)" "result_label q \<in> set (fst ?L)"
    using assms(1,2) by (simp_all add: on_process_loop_choices)
  have Pne: "?P \<noteq> []" using assms(1) by (auto simp: filter_empty_conv)
  have Qne: "?Q \<noteq> []" using assms(2) by (auto simp: filter_empty_conv)
  have mp: "snd ?L (result_label p) = Some (last ?P)"
    using Pne by (simp add: on_process_loop_last)
  have mq: "snd ?L (result_label q) = Some (last ?Q)"
    using Qne by (simp add: on_process_loop_last)
  have "last ?P \<in> set ?P" using Pne by (rule last_in_set)
  then have p2: "last ?P \<in> set mesh_files" "result_label (last ?P) = result_label p"
    by simp_all
  have "last ?Q \<in> set ?Q" using Qne by (rule last_in_set)
  then have q2: "last ?Q \<in> set mesh_files" "result_label (last ?Q) = result_label q"
    by simp_all
  have p3: "lower (path_suffix (Path (last ?P))) \<noteq> ''.obj''"
  proof
    assume "lower (path_suffix (Path (last ?P))) = ''.obj''"
    then have "last (result_label (last ?P)) = CHR '')''" by (simp add: result_label_last)
    moreover have "last (result_label p) = CHR ''s''"
      using assms(4) by (simp add: result_label_last)
    ultimately show False using p2(2) by simp
  qed
  have q3: "lower (path_suffix (Path (last ?Q))) = ''.obj''"
  proof (rule ccontr)
    assume "lower (path_suffix (Path (last ?Q))) \<noteq> ''.obj''"
    then have "last (result_label (last ?Q)) = CHR ''s''" by (simp add: result_label_last)
    moreover have "last (result_label q) = CHR '')''"
      using assms(5) by (simp add: result_label_last)
    ultimately show False using q2(2) by simp
  qed
  have ep: "\<exists>p'. snd ?L (result_label p) = Some p' \<and> p' \<in> set mesh_files
              \<and> lower (path_suffix (Path p')) \<noteq> ''.obj''"
    using mp p2(1) p3 by (intro exI [of _ "last ?P"]) simp
  have eq: "\<exists>q'. snd ?L (result_label q) = Some q' \<and> q' \<in> set mesh_files
              \<and> lower (path_suffix (Path q')) = ''.obj''"
    using mq q2(1) q3 by (intro exI [of _ "last ?Q"]) simp
  have up: "(\<forall>x\<in>set mesh_files. result_label x = result_label p \<longrightarrow> x = p)
              \<longrightarrow> snd ?L (result_label p) = Some p"
    using mp p2 by auto
  have uq: "(\<forall>x\<in>set mesh_files. result_label x = result_label q \<longrightarrow> x = q)
              \<longrightarrow> snd ?L (result_label q) = Some q"
    using mq q2 by auto
  show ?thesis
    using lp lq ne cs ch mp mq ep eq up uq by (intro conjI)
qed

lemma on_process_link:
  assumes "process_3d_file env fp ipc mc ua pm ao knn ppf jd w = (Inr (st, files, pca, l), w')"
  shows "choices_of (fst (on_process env jd fp ipc mc ua pm ao knn ppf w))
           = fst (on_process_loop files ([], Map.empty))
       \<and> mapping_of (fst (on_process env jd fp ipc mc ua pm ao knn ppf w))
           = snd (on_process_loop files ([], Map.empty))"
  using assms
  by (simp add: on_process_def choices_of_def mapping_of_def Let_def split: prod.splits)

lemma chair_labels:
  "result_label ''/jobs/1a2b3c4d/output/ply/chair_0_2.ply'' = ''2 parts''"
  "result_label ''/jobs/1a2b3c4d/output/ply/chair_0_2.obj'' = ''2 parts (UV)''"
  "result_label ''/jobs/1a2b3c4d/output/ply/chair_0_3.ply'' = ''3 parts''"
  by (simp_all add: result_label_def path_eval Let_def)

lemma chair_loop:
  "fst (on_process_loop chair_files ([], Map.empty)) = [''2 parts'', ''2 parts (UV)'', ''3 parts'']"
  "snd (on_process_loop chair_files ([], Map.empty)) ''2 parts''
     = Some ''/jobs/1a2b3c4d/output/ply/chair_0_2.ply''"
  "snd (on_process_loop chair_files ([], Map.empty)) ''2 parts (UV)''
     = Some ''/jobs/1a2b3c4d/output/ply/chair_0_2.obj''"
  by (simp_all add: chair_files_def chair_labels)

lemma chair_keys:
  "get_cluster_count (Path ''/jobs/1a2b3c4d/output/ply/chair_0_2.ply'') = 2"
  "get_cluster_count (Path ''/jobs/1a2b3c4d/output/ply/chair_0_2.obj'') = 2"
  by (simp_all add: get_cluster_count_def path_eval py_int_def strip_def is_space_def
      digit_val_def)

lemma twin_labels:
  "result_label ''/o/ply/a_0_5.ply'' = ''5 parts''"
  "result_label ''/o/ply/b_0_5.ply'' = ''5 parts''"
  "result_label ''/o/ply/b_0_5.obj'' = ''5 parts (UV)''"
  by (simp_all add: result_label_def path_eval Let_def)

lemma twin_keys:
  "get_cluster_count (Path ''/o/ply/a_0_5.ply'') = 5"
  "get_cluster_count (Path ''/o/ply/b_0_5.obj'') = 5"
  by (simp_all add: get_cluster_count_def path_eval py_int_def strip_def is_space_def
      digit_val_def)

theorem both_formats_surfaced_witness:
  "''/o/ply/a_0_5.ply'' \<in> set twin_files
   \<and> ''/o/ply/b_0_5.obj'' \<in> set twin_files
   \<and> get_cluster_count (Path ''/o/ply/a_0_5.ply'') = get_cluster_count (Path ''/o/ply/b_0_5.obj'')
   \<and> lower (path_suffix (Path ''/o/ply/a_0_5.ply'')) \<noteq> ''.obj''
   \<and> lower (path_suffix (Path ''/o/ply/b_0_5.obj'')) = ''.obj''
   \<and> result_label ''/o/ply/a_0_5.ply'' = ''5 parts''
   \<and> result_label ''/o/ply/b_0_5.obj'' = ''5 parts (UV)''
   \<and> fst (on_process_loop twin_files ([], Map.empty)) = [''5 parts'', ''5 parts'', ''5 parts (UV)'']
   \<and> snd (on_process_loop twin_files ([], Map.empty)) ''5 parts'' = Some ''/o/ply/b_0_5.ply''
   \<and> snd (on_process_loop twin_files ([], Map.empty)) ''5 parts (UV)'' = Some ''/o/ply/b_0_5.obj''
   \<and> filter (\<lambda>x. result_label x = result_label ''/o/ply/b_0_5.obj'') twin_files
       = [''/o/ply/b_0_5.obj'']"
proof -
  have a: "''/o/ply/a_0_5.ply'' \<in> set twin_files"
    and b: "''/o/ply/b_0_5.obj'' \<in> set twin_files"
    by (simp_all add: twin_files_def)
  have k: "get_cluster_count (Path ''/o/ply/a_0_5.ply'')
             = get_cluster_count (Path ''/o/ply/b_0_5.obj'')"
    by (simp add: twin_keys)
  have p: "lower (path_suffix (Path ''/o/ply/a_0_5.ply'')) \<noteq> ''.obj''"
    by (simp add: path_eval)
  have q: "lower (path_suffix (Path ''/o/ply/b_0_5.obj'')) = ''.obj''"
    by (simp add: path_eval)
  note T = both_formats_surfaced [OF a b k p q]
  have u: "\<forall>x\<in>set twin_files. result_label x = result_label ''/o/ply/b_0_5.obj''
             \<longrightarrow> x = ''/o/ply/b_0_5.obj''"
    by (simp add: twin_files_def twin_labels)
  have c: "fst (on_process_loop twin_files ([], Map.empty))
             = [''5 parts'', ''5 parts'', ''5 parts (UV)'']"
  proof -
    have "fst (on_process_loop twin_files ([], Map.empty)) = map result_label twin_files"
      using T by (elim conjE)
    then show ?thesis by (simp add: twin_files_def twin_labels)
  qed
  have m1: "snd (on_process_loop twin_files ([], Map.empty)) ''5 parts''
              = Some ''/o/ply/b_0_5.ply''"
  proof -
    have "snd (on_process_loop twin_files ([], Map.empty)) (result_label ''/o/ply/a_0_5.ply'')
            = Some (last (filter (\<lambda>x. result_label x = result_label ''/o/ply/a_0_5.ply'')
                            twin_files))"
      using T by (elim conjE)
    then show ?thesis by (simp add: twin_files_def twin_labels)
  qed
  have m2: "snd (on_process_loop twin_files ([], Map.empty)) ''5 parts (UV)''
              = Some ''/o/ply/b_0_5.obj''"
  proof -
    have "snd (on_process_loop twin_files ([], Map.empty)) (result_label ''/o/ply/b_0_5.obj'')
            = Some ''/o/ply/b_0_5.obj''"
      using T u by (elim conjE) (erule mp, assumption)
    then show ?thesis by (simp only: twin_labels)
  qed
  have v: "filter (\<lambda>x. result_label x = result_label ''/o/ply/b_0_5.obj'') twin_files
             = [''/o/ply/b_0_5.obj'']"
    by (simp add: twin_files_def twin_labels)
  show ?thesis
    using a b k p q twin_labels(1,3) c m1 m2 v by (intro conjI)
qed

text \<open>
  The claim as it was stated fails: the run with three meshes harvests a \<^verbatim>\<open>.ply\<close> and an
  \<^verbatim>\<open>.obj\<close> file for 2 parts, and the handler offers both; the label \<open>2 parts\<close> leads to the
  \<^verbatim>\<open>.ply\<close> file.
\<close>

theorem ply_variant_surfaced_counterexample:
  "get_cluster_count (Path ''/jobs/1a2b3c4d/output/ply/chair_0_2.ply'')
     = get_cluster_count (Path ''/jobs/1a2b3c4d/output/ply/chair_0_2.obj'')
   \<and> artifacts_of (fst (process_3d_file (two_stage_env mesh_effect) ''/tmp/chair.obj'' False 20
                          True False 1 False 1000 ''/jobs'' job_world)) = Some chair_files
   \<and> choices_of (fst (on_process (two_stage_env mesh_effect) ''/jobs'' ''/tmp/chair.obj'' False
                        20 True False 1 False 1000 job_world))
       = [''2 parts'', ''2 parts (UV)'', ''3 parts'']
   \<and> mapping_of (fst (on_process (two_stage_env mesh_effect) ''/jobs'' ''/tmp/chair.obj'' False
                        20 True False 1 False 1000 job_world)) ''2 parts''
       = Some ''/jobs/1a2b3c4d/output/ply/chair_0_2.ply''
   \<and> mapping_of (fst (on_process (two_stage_env mesh_effect) ''/jobs'' ''/tmp/chair.obj'' False
                        20 True False 1 False 1000 job_world)) ''2 parts (UV)''
       = Some ''/jobs/1a2b3c4d/output/ply/chair_0_2.obj''"
proof -
  obtain w3 where r: "step1_world (two_stage_env mesh_effect) ''/tmp/chair.obj'' ''/jobs''
      job_world = Some w3" and f: "fs w3 = ready_fs"
    using two_stage_ready by blast
  have ne: "mesh_list (mesh_effect (stage1_effect (fs w3)))
              (job_output_dir (two_stage_env mesh_effect) ''/jobs'') \<noteq> []"
    unfolding f job_dirs mesh_run_list by simp
  have fl: "map str_path (mesh_list (mesh_effect (stage1_effect (fs w3)))
              (job_output_dir (two_stage_env mesh_effect) ''/jobs'')) = chair_files"
    unfolding f job_dirs mesh_run_list
    by (simp add: chair_files_def str_path_def harvest_out_def)
  obtain st pca l w' where
    h: "process_3d_file (two_stage_env mesh_effect) ''/tmp/chair.obj'' False 20 True False 1
          False 1000 ''/jobs'' job_world = (Inr (st, chair_files, pca, l), w')"
    using harvest_run [OF r two_stage_popen(1) two_stage_popen(2) ne] unfolding fl by blast
  have a: "artifacts_of (fst (process_3d_file (two_stage_env mesh_effect) ''/tmp/chair.obj''
             False 20 True False 1 False 1000 ''/jobs'' job_world)) = Some chair_files"
    unfolding h by (simp add: artifacts_of_def)
  show ?thesis
    using a on_process_link [OF h] chair_loop chair_keys by simp
qed

subsection \<open>The order of the side effects\<close>

lemma later_iff: "later w w' \<longleftrightarrow> (\<exists>rest. trace w' = trace w @ rest)"
proof
  assume "later w w'"
  then have "trace w' = trace w @ drop (length (trace w)) (trace w')"
    unfolding later_def by (metis append_take_drop_id)
  then show "\<exists>rest. trace w' = trace w @ rest" ..
next
  assume "\<exists>rest. trace w' = trace w @ rest"
  then show "later w w'" by (auto simp: later_def)
qed

lemma later_refl [simp]: "later w w"
  by (simp add: later_def)

lemma later_trans: "later a b \<Longrightarrow> later b c \<Longrightarrow> later a c"
  by (auto simp: later_iff)

lemma later_emit [simp]: "later w (emit e w)"
  by (simp add: later_iff)

lemma later_app: "trace w' = trace w @ es \<Longrightarrow> later w w'"
  by (auto simp: later_iff)

lemma run_command_trace:
  "run_command env cmd cwd cb w = (r, w') \<Longrightarrow> trace w' = trace w @ [Ev_popen cmd cwd]"
  by (auto simp: run_command_def run_command_try_def Let_def
      split: proc.splits sum.splits prod.splits)

lemma collect_results_later:
  "collect_results env lo out feat mc pca w = (r, w') \<Longrightarrow> later w w'"
proof -
  have a: "later w (snd (rmtree env feat (clear_gpu_memory w)))"
    using rmtree_trace [of env feat "clear_gpu_memory w"]
    by (cases "rmtree env feat (clear_gpu_memory w)") (simp add: later_iff clear_gpu_memory_def)
  have b: "later w (clear_gpu_memory w)" by (simp add: clear_gpu_memory_def)
  assume "collect_results env lo out feat mc pca w = (r, w')"
  then show ?thesis using a b
    by (auto simp: collect_results_def Let_def rmtree_ignore_errors_def split: if_splits)
qed

lemma clustering_later:
  assumes "clustering env lo inp out feat pdir ipc mc ua ao knn pca w = (r, w')"
  shows "later w w'"
  using assms unfolding clustering_def Let_def
  by (auto split: prod.splits sum.splits if_splits
      dest!: run_command_trace collect_results_later intro: later_app later_trans)

lemma feature_extraction_later:
  assumes "feature_extraction env lo jid inp out pdir ipc mc ua pm ao knn ppf w = (r, w')"
  shows "later w w'"
  using assms unfolding feature_extraction_def Let_def
  by (auto split: prod.splits sum.splits if_splits
      dest!: run_command_trace clustering_later intro: later_app later_trans)


lemma cleanup_loop_later: "later w (snd (cleanup_loop env c ds k w))"
proof (induction ds arbitrary: k w)
  case Nil
  then show ?case by simp
next
  case (Cons d ds)
  obtain r w' where rm: "rmtree env d w = (r, w')" by (cases "rmtree env d w")
  then have "later w w'" using rmtree_trace later_app by blast
  then have "later w (snd (cleanup_loop env c ds k' w'))" for k'
    using Cons.IH later_trans by blast
  then show ?case using Cons.IH [of w k] rm
    by (cases r) (simp_all split: sum.splits)
qed

lemma cleanup_old_jobs_trace:
  assumes "cleanup_old_jobs env d h w = (r, w')"
  shows "\<exists>rest. trace w' = trace w @ Ev_cleanup d # rest"
proof -
  have l: "cleanup_loop env c ds k w0 = (r, w') \<Longrightarrow> later w0 w'" for c ds k w0
    using cleanup_loop_later [of w0 env c ds k] by simp
  have "later (emit (Ev_cleanup d) w) w'"
    using assms
    by (auto simp: cleanup_old_jobs_def Let_def split: if_splits sum.splits dest!: l)
  then show ?thesis by (auto simp: later_iff)
qed

lemma setup_job_directory_ok_trace:
  assumes "setup_job_directory env lo fp jid inp out w = (Inr lo1, w1)"
  shows "trace w1 = trace w @ [Ev_mkdir inp, Ev_mkdir out,
                               Ev_copy2 fp (pjoin inp (path_name (Path fp)))]"
proof -
  obtain r1 wa where m1: "mkdir env inp w = (r1, wa)" by (cases "mkdir env inp w")
  obtain r2 wb where m2: "mkdir env out wa = (r2, wb)" by (cases "mkdir env out wa")
  obtain r3 wc where m3: "copy2 env fp (pjoin inp (path_name (Path fp))) wb = (r3, wc)"
    by (cases "copy2 env fp (pjoin inp (path_name (Path fp))) wb")
  note t = mkdir_trace [OF m1] mkdir_trace [OF m2] copy2_trace [OF m3]
  show ?thesis using assms m1 m2 m3 t
    by (auto simp: setup_job_directory_def Let_def split: sum.splits)
qed

lemma setup_job_directory_fails:
  assumes "mkdir env inp w = (Inl e, w1)
           \<or> (\<exists>wa. mkdir env inp w = (Inr (), wa) \<and> mkdir env out wa = (Inl e, w1))
           \<or> (\<exists>wa wb. mkdir env inp w = (Inr (), wa) \<and> mkdir env out wa = (Inr (), wb)
                 \<and> copy2 env fp (pjoin inp (path_name (Path fp))) wb = (Inl e, w1))"
  shows "setup_job_directory env lo fp jid inp out w = (Inl e, w1)
       \<and> spawned w1 = spawned w
       \<and> (\<exists>evs. trace w1 = trace w @ evs
              \<and> set evs \<subseteq> {Ev_mkdir inp, Ev_mkdir out,
                             Ev_copy2 fp (pjoin inp (path_name (Path fp)))})"
  using assms
proof (elim disjE exE conjE)
  assume a: "mkdir env inp w = (Inl e, w1)"
  note t = mkdir_trace [OF a] mkdir_spawned [OF a]
  show ?thesis using a t by (simp add: setup_job_directory_def)
next
  fix wa assume a: "mkdir env inp w = (Inr (), wa)" and b: "mkdir env out wa = (Inl e, w1)"
  note t = mkdir_trace [OF a] mkdir_spawned [OF a] mkdir_trace [OF b] mkdir_spawned [OF b]
  show ?thesis using a b t by (simp add: setup_job_directory_def)
next
  fix wa wb assume a: "mkdir env inp w = (Inr (), wa)" and b: "mkdir env out wa = (Inr (), wb)"
    and c: "copy2 env fp (pjoin inp (path_name (Path fp))) wb = (Inl e, w1)"
  note t = mkdir_trace [OF a] mkdir_spawned [OF a] mkdir_trace [OF b] mkdir_spawned [OF b]
    copy2_trace [OF c] copy2_spawned [OF c]
  show ?thesis using a b c t by (simp add: setup_job_directory_def Let_def)
qed

lemma process_setup_fails:
  assumes "fst (validate_file (fs w) file_path)"
    and "setup_job_directory env (log env w [] ''File validated successfully'') file_path
           (take 8 (uuid4 env)) (job_input_dir env jobs_dir) (job_output_dir env jobs_dir) w
         = (Inl e, w1)"
  shows "process_3d_file env file_path ipc mc ua pm ao knn ppf jobs_dir w = (Inl e, w1)"
  using assms unfolding process_3d_file_def Let_def job_input_dir_def job_output_dir_def
  by (auto split: prod.splits)

lemma process_sweep_trace:
  assumes "fst (validate_file (fs w) file_path)"
    and "setup_job_directory env (log env w [] ''File validated successfully'') file_path
           (take 8 (uuid4 env)) (job_input_dir env jobs_dir) (job_output_dir env jobs_dir) w
         = (Inr lo1, w1)"
  shows "\<exists>rest. trace (snd (process_3d_file env file_path ipc mc ua pm ao knn ppf jobs_dir w))
           = trace w @ [Ev_mkdir (job_input_dir env jobs_dir),
                        Ev_mkdir (job_output_dir env jobs_dir),
                        Ev_copy2 file_path (job_dest_path env file_path jobs_dir),
                        Ev_cleanup (Path jobs_dir)] @ rest"
proof -
  have t1: "trace w1 = trace w @ [Ev_mkdir (job_input_dir env jobs_dir),
                        Ev_mkdir (job_output_dir env jobs_dir),
                        Ev_copy2 file_path (job_dest_path env file_path jobs_dir)]"
    using setup_job_directory_ok_trace [OF assms(2)] by (simp add: job_dest_path_def)
  obtain r2 w2 where c: "cleanup_old_jobs env (Path jobs_dir) JOB_EXPIRY_HOURS w1 = (r2, w2)"
    by (cases "cleanup_old_jobs env (Path jobs_dir) JOB_EXPIRY_HOURS w1")
  obtain rest1 where t2: "trace w2 = trace w1 @ Ev_cleanup (Path jobs_dir) # rest1"
    using cleanup_old_jobs_trace [OF c] by blast
  have "later w2 (snd (process_3d_file env file_path ipc mc ua pm ao knn ppf jobs_dir w))"
  proof (cases r2)
    case (Inl e)
    then show ?thesis using assms c
      unfolding process_3d_file_def Let_def job_input_dir_def job_output_dir_def
      by (auto split: prod.splits)
  next
    case (Inr removed)
    obtain r w' where p: "process_3d_file env file_path ipc mc ua pm ao knn ppf jobs_dir w = (r, w')"
      by (cases "process_3d_file env file_path ipc mc ua pm ao knn ppf jobs_dir w")
    then obtain lo3 where "feature_extraction env lo3 (take 8 (uuid4 env))
        (job_input_dir env jobs_dir) (job_output_dir env jobs_dir)
        (get_partfield_dir env (fs (clear_gpu_memory w2))) ipc mc ua pm ao knn ppf
        (clear_gpu_memory w2) = (r, w')"
      using assms c Inr
      unfolding process_3d_file_def Let_def job_input_dir_def job_output_dir_def
      by (auto split: prod.splits)
    then have "later (clear_gpu_memory w2) w'" by (rule feature_extraction_later)
    moreover have "later w2 (clear_gpu_memory w2)" by (simp add: clear_gpu_memory_def)
    ultimately show ?thesis using p later_trans by auto
  qed
  then obtain rest2 where
    "trace (snd (process_3d_file env file_path ipc mc ua pm ao knn ppf jobs_dir w))
       = trace w2 @ rest2"
    by (auto simp: later_iff)
  then show ?thesis using t1 t2 by simp
qed

lemma job_valid: "fst (validate_file (fs job_world) ''/tmp/chair.obj'')"
  by (simp add: validate_file_def path_eval SUPPORTED_EXTENSIONS_def job_world_def job_fs_def
      Let_def)

lemma denied_dirs:
  "job_input_dir denied_env ''/jobs'' = [''/'', ''jobs'', ''1a2b3c4d'', ''input'']"
  "job_output_dir denied_env ''/jobs'' = [''/'', ''jobs'', ''1a2b3c4d'', ''output'']"
  by (simp_all add: job_input_dir_def job_output_dir_def path_eval denied_env_def env0_def)

lemma denied_mkdir:
  "mkdir denied_env (job_input_dir denied_env ''/jobs'') job_world
     = (Inl (Exception ''PermissionError'' ''denied''),
        emit (Ev_mkdir [''/'', ''jobs'', ''1a2b3c4d'', ''input'']) job_world)"
  unfolding denied_dirs by (simp add: mkdir_def denied_env_def Let_def)

lemma two_stage_dirs:
  "job_input_dir (two_stage_env eff2) ''/jobs'' = [''/'', ''jobs'', ''1a2b3c4d'', ''input'']"
  "job_output_dir (two_stage_env eff2) ''/jobs'' = [''/'', ''jobs'', ''1a2b3c4d'', ''output'']"
  "job_dest_path (two_stage_env eff2) ''/tmp/chair.obj'' ''/jobs''
     = [''/'', ''jobs'', ''1a2b3c4d'', ''input'', ''chair.obj'']"
  "Path ''/jobs'' = [''/'', ''jobs'']"
  by (simp_all add: job_input_dir_def job_output_dir_def job_dest_path_def path_eval
      two_stage_env_def env0_def)

lemma two_stage_setup_steps:
  "\<exists>wa wb wc.
     mkdir (two_stage_env eff2) [''/'', ''jobs'', ''1a2b3c4d'', ''input''] job_world = (Inr (), wa)
     \<and> mkdir (two_stage_env eff2) [''/'', ''jobs'', ''1a2b3c4d'', ''output''] wa = (Inr (), wb)
     \<and> copy2 (two_stage_env eff2) ''/tmp/chair.obj''
          [''/'', ''jobs'', ''1a2b3c4d'', ''input'', ''chair.obj''] wb = (Inr (), wc)"
  by (simp add: world_eval path_eval two_stage_env_def env0_def job_world_def job_fs_def upt_rec)

subsection \<open>Failure of the job directory\<close>

text \<open>
  Claim C3, as the code has it. If, for a file that passes validation, the creation of the
  input directory, the creation of the output directory or the copy of the input file
  raises, then \<^verbatim>\<open>process_3d_file\<close> raises that same exception and returns no result; no
  subprocess has been started, and the only side effects are the calls made up to the
  failing one, so the sweep has not run either.
\<close>

theorem workspace_failure_propagates:
  assumes "fst (validate_file (fs w) file_path)"
    and "mkdir env (job_input_dir env jobs_dir) w = (Inl e, w1)
         \<or> (\<exists>wa. mkdir env (job_input_dir env jobs_dir) w = (Inr (), wa)
               \<and> mkdir env (job_output_dir env jobs_dir) wa = (Inl e, w1))
         \<or> (\<exists>wa wb. mkdir env (job_input_dir env jobs_dir) w = (Inr (), wa)
               \<and> mkdir env (job_output_dir env jobs_dir) wa = (Inr (), wb)
               \<and> copy2 env file_path (job_dest_path env file_path jobs_dir) wb = (Inl e, w1))"
  shows "process_3d_file env file_path is_point_cloud max_clusters use_agglomerative
           preprocess_mesh adjacency_option add_knn_edges points_per_face jobs_dir w
           = (Inl e, w1)
       \<and> spawned w1 = spawned w
       \<and> (\<exists>evs. trace w1 = trace w @ evs
              \<and> set evs \<subseteq> {Ev_mkdir (job_input_dir env jobs_dir),
                             Ev_mkdir (job_output_dir env jobs_dir),
                             Ev_copy2 file_path (job_dest_path env file_path jobs_dir)})"
  using setup_job_directory_fails [OF assms(2) [unfolded job_dest_path_def],
      of "log env w [] ''File validated successfully''" "take 8 (uuid4 env)"]
    process_setup_fails [OF assms(1)]
  unfolding job_dest_path_def by simp

theorem workspace_failure_propagates_witness:
  "fst (validate_file (fs job_world) ''/tmp/chair.obj'')
   \<and> process_3d_file denied_env ''/tmp/chair.obj'' False 20 True False 1 False 1000 ''/jobs''
        job_world
       = (Inl (Exception ''PermissionError'' ''denied''),
          emit (Ev_mkdir [''/'', ''jobs'', ''1a2b3c4d'', ''input'']) job_world)
   \<and> spawned (emit (Ev_mkdir [''/'', ''jobs'', ''1a2b3c4d'', ''input'']) job_world)
       = spawned job_world"
  using job_valid
    workspace_failure_propagates [OF job_valid disjI1 [OF denied_mkdir],
      of False 20 True False 1 False 1000]
  by simp

text \<open>
  The claim as it was stated fails: when the input directory cannot be created, what leaves
  \<^verbatim>\<open>process_3d_file\<close> is the exception, not a result with a status.
\<close>

theorem workspace_failure_raises_counterexample:
  "fst (validate_file (fs job_world) ''/tmp/chair.obj'')
   \<and> fst (process_3d_file denied_env ''/tmp/chair.obj'' False 20 True False 1 False 1000
             ''/jobs'' job_world)
       = Inl (Exception ''PermissionError'' ''denied'')
   \<and> status_of (fst (process_3d_file denied_env ''/tmp/chair.obj'' False 20 True False 1 False
                       1000 ''/jobs'' job_world)) = None"
proof -
  have s: "setup_job_directory denied_env (log denied_env job_world []
             ''File validated successfully'') ''/tmp/chair.obj'' (take 8 (uuid4 denied_env))
             (job_input_dir denied_env ''/jobs'') (job_output_dir denied_env ''/jobs'') job_world
           = (Inl (Exception ''PermissionError'' ''denied''),
              emit (Ev_mkdir [''/'', ''jobs'', ''1a2b3c4d'', ''input'']) job_world)"
    using setup_job_directory_fails [OF disjI1 [OF denied_mkdir]] by simp
  show ?thesis
    using job_valid process_setup_fails [OF job_valid s, of False 20 True False 1 False 1000]
    by (simp add: status_of_def)
qed

subsection \<open>The place of the sweep\<close>

text \<open>
  Claim C2, as the code has it. For a file that passes validation and a job directory that
  is set up without failure, the first side effects of \<^verbatim>\<open>process_3d_file\<close> are, in this
  order, the creation of the input directory, the creation of the output directory, the
  copy of the input file and then the call of \<^verbatim>\<open>cleanup_old_jobs\<close> on the jobs root;
  everything else, every subprocess included, comes after the sweep.
\<close>

theorem sweep_after_workspace:
  assumes "fst (validate_file (fs w) file_path)"
    and "mkdir env (job_input_dir env jobs_dir) w = (Inr (), wa)"
    and "mkdir env (job_output_dir env jobs_dir) wa = (Inr (), wb)"
    and "copy2 env file_path (job_dest_path env file_path jobs_dir) wb = (Inr (), wc)"
  shows "\<exists>rest. trace (snd (process_3d_file env file_path is_point_cloud max_clusters
                          use_agglomerative preprocess_mesh adjacency_option add_knn_edges
                          points_per_face jobs_dir w))
           = trace w @ [Ev_mkdir (job_input_dir env jobs_dir),
                        Ev_mkdir (job_output_dir env jobs_dir),
                        Ev_copy2 file_path (job_dest_path env file_path jobs_dir),
                        Ev_cleanup (Path jobs_dir)] @ rest"
proof -
  have "\<exists>lo1. setup_job_directory env (log env w [] ''File validated successfully'') file_path
           (take 8 (uuid4 env)) (job_input_dir env jobs_dir) (job_output_dir env jobs_dir) w
         = (Inr lo1, wc)"
    using assms(2,3,4) by (simp add: setup_job_directory_def Let_def job_dest_path_def)
  then show ?thesis using process_sweep_trace [OF assms(1)] by blast
qed

theorem sweep_after_workspace_witness:
  "fst (validate_file (fs job_world) ''/tmp/chair.obj'')
   \<and> (\<exists>rest. trace (snd (process_3d_file (two_stage_env mesh_effect) ''/tmp/chair.obj'' False 20
                             True False 1 False 1000 ''/jobs'' job_world))
         = [Ev_mkdir [''/'', ''jobs'', ''1a2b3c4d'', ''input''],
            Ev_mkdir [''/'', ''jobs'', ''1a2b3c4d'', ''output''],
            Ev_copy2 ''/tmp/chair.obj'' [''/'', ''jobs'', ''1a2b3c4d'', ''input'', ''chair.obj''],
            Ev_cleanup [''/'', ''jobs'']] @ rest)"
proof -
  obtain wa wb wc where
    a: "mkdir (two_stage_env mesh_effect) (job_input_dir (two_stage_env mesh_effect) ''/jobs'')
          job_world = (Inr (), wa)"
    and b: "mkdir (two_stage_env mesh_effect) (job_output_dir (two_stage_env mesh_effect) ''/jobs'')
          wa = (Inr (), wb)"
    and c: "copy2 (two_stage_env mesh_effect) ''/tmp/chair.obj''
          (job_dest_path (two_stage_env mesh_effect) ''/tmp/chair.obj'' ''/jobs'') wb
          = (Inr (), wc)"
    unfolding two_stage_dirs using two_stage_setup_steps by blast
  have t: "trace job_world = []" by (simp add: job_world_def)
  show ?thesis
    using job_valid sweep_after_workspace [OF job_valid a b c, of False 20 True False 1 False 1000]
    unfolding two_stage_dirs t by simp
qed

text \<open>
  The claim as it was stated fails: in the run with three meshes the sweep is the fourth
  side effect, after the two directories and the copy.
\<close>

theorem sweep_before_workspace_counterexample:
  "take 4 (trace (snd (process_3d_file (two_stage_env mesh_effect) ''/tmp/chair.obj'' False 20
                         True False 1 False 1000 ''/jobs'' job_world)))
     = [Ev_mkdir [''/'', ''jobs'', ''1a2b3c4d'', ''input''],
        Ev_mkdir [''/'', ''jobs'', ''1a2b3c4d'', ''output''],
        Ev_copy2 ''/tmp/chair.obj'' [''/'', ''jobs'', ''1a2b3c4d'', ''input'', ''chair.obj''],
        Ev_cleanup [''/'', ''jobs'']]"
proof -
  obtain wa wb wc where
    a: "mkdir (two_stage_env mesh_effect) [''/'', ''jobs'', ''1a2b3c4d'', ''input'']
          job_world = (Inr (), wa)"
    and b: "mkdir (two_stage_env mesh_effect) [''/'', ''jobs'', ''1a2b3c4d'', ''output'']
          wa = (Inr (), wb)"
    and c: "copy2 (two_stage_env mesh_effect) ''/tmp/chair.obj''
          [''/'', ''jobs'', ''1a2b3c4d'', ''input'', ''chair.obj''] wb = (Inr (), wc)"
    using two_stage_setup_steps by blast
  have "\<exists>lo1. setup_job_directory (two_stage_env mesh_effect)
           (log (two_stage_env mesh_effect) job_world [] ''File validated successfully'')
           ''/tmp/chair.obj'' (take 8 (uuid4 (two_stage_env mesh_effect)))
           (job_input_dir (two_stage_env mesh_effect) ''/jobs'')
           (job_output_dir (two_stage_env mesh_effect) ''/jobs'') job_world = (Inr lo1, wc)"
    unfolding two_stage_dirs using a b c
    by (simp add: setup_job_directory_def Let_def path_eval)
  then obtain rest where
    "trace (snd (process_3d_file (two_stage_env mesh_effect) ''/tmp/chair.obj'' False 20
                         True False 1 False 1000 ''/jobs'' job_world))
     = trace job_world @ [Ev_mkdir [''/'', ''jobs'', ''1a2b3c4d'', ''input''],
        Ev_mkdir [''/'', ''jobs'', ''1a2b3c4d'', ''output''],
        Ev_copy2 ''/tmp/chair.obj'' [''/'', ''jobs'', ''1a2b3c4d'', ''input'', ''chair.obj''],
        Ev_cleanup [''/'', ''jobs'']] @ rest"
    using process_sweep_trace [OF job_valid, of "two_stage_env mesh_effect" "''/jobs''" _ wc
        False 20 True False 1 False 1000]
    unfolding two_stage_dirs by blast
  then show ?thesis by (simp add: job_world_def)
qed

end
